theory Spec2Isabelle
  imports Main "HOL-Library.Word"
begin

section \<open>The display pipeline of scrcpy: data model\<close>

text \<open>
  The development follows \<^verbatim>\<open>app/src/screen.c\<close> and \<^verbatim>\<open>app/src/util/sdl.c\<close>.
  Every function that can trap returns a value of \<open>error + 'a\<close>: a division by zero,
  a failed \<^verbatim>\<open>assert\<close> and an \<^verbatim>\<open>abort()\<close> are \<open>Inl\<close> results. The integers are
  those of the machine: a field of 16 bits is a word of 16 bits, and the value of an
  expression of type \<^verbatim>\<open>int\<close>, \<^verbatim>\<open>int32_t\<close> or \<^verbatim>\<open>int64_t\<close> is reduced to its width.
\<close>

datatype error = DivisionByZero | AssertionFailed | Aborted

text \<open>
  Modelled from the spec: \<^verbatim>\<open>struct sc_size\<close> and \<^verbatim>\<open>struct sc_point\<close> are declared in
  \<^verbatim>\<open>coords.h\<close>, which is not among the sources. The spec's data model has
  "Size {width, height: non-negative integers}", kept within "a 16-bit bound", and
  "Point {x, y: signed integers}". The sources give the widths: the frame sink refuses a
  dimension above \<^verbatim>\<open>0xFFFF\<close>, the requested dimensions are \<^verbatim>\<open>uint16_t\<close>,
  \<^verbatim>\<open>get_initial_optimal_size\<close> and \<^verbatim>\<open>resize_for_content\<close> cast a dimension to
  \<^verbatim>\<open>uint32_t\<close> before they multiply it, and the coordinates of a point are
  \<^verbatim>\<open>int32_t\<close>. So the fields of a size are words of 16 bits, and a product of two of
  them that is written without a cast is computed in \<^verbatim>\<open>int\<close>.
\<close>

record sc_size =
  width :: "16 word"
  height :: "16 word"

record sc_point =
  point_x :: int
  point_y :: int

text \<open>
  \<^verbatim>\<open>SDL_Rect\<close> has four \<^verbatim>\<open>int\<close> fields. The fields of a point and of a rectangle are
  integers; what the program stores in them has been reduced to 32 bits.
\<close>

record SDL_Rect =
  rect_x :: int
  rect_y :: int
  rect_w :: int
  rect_h :: int

text \<open>
  The eight orientations. Modelled from the spec: \<^verbatim>\<open>sc_orientation_is_swap\<close> is declared
  in \<^verbatim>\<open>options.h\<close>, which is not among the sources; the spec has the width and the
  height swapped for the rotations by 90 and 270 degrees and their mirrored variants.
\<close>

datatype sc_orientation =
    SC_ORIENTATION_0
  | SC_ORIENTATION_90
  | SC_ORIENTATION_180
  | SC_ORIENTATION_270
  | SC_ORIENTATION_FLIP_0
  | SC_ORIENTATION_FLIP_90
  | SC_ORIENTATION_FLIP_180
  | SC_ORIENTATION_FLIP_270

fun sc_orientation_is_swap :: "sc_orientation \<Rightarrow> bool" where
  "sc_orientation_is_swap SC_ORIENTATION_90 = True"
| "sc_orientation_is_swap SC_ORIENTATION_270 = True"
| "sc_orientation_is_swap SC_ORIENTATION_FLIP_90 = True"
| "sc_orientation_is_swap SC_ORIENTATION_FLIP_270 = True"
| "sc_orientation_is_swap _ = False"

subsection \<open>Integer arithmetic as C has it\<close>

text \<open>
  The value of a signed expression of 32 or of 64 bits whose exact result is \<open>k\<close>: the
  result wraps around in two's complement, which is what the compiled program computes
  where C leaves the overflow undefined, and what a conversion to \<^verbatim>\<open>int32_t\<close> does.
\<close>

definition s32 :: "int \<Rightarrow> int" where
  "s32 k = (k + 2147483648) mod 4294967296 - 2147483648"

definition s64 :: "int \<Rightarrow> int" where
  "s64 k = (k + 9223372036854775808) mod 18446744073709551616 - 9223372036854775808"

text \<open>
  The quotient of two unsigned operands; a zero divisor traps.
\<close>

definition c_div :: "nat \<Rightarrow> nat \<Rightarrow> error + nat" where
  "c_div a b = (if b = 0 then Inl DivisionByZero else Inr (a div b))"

text \<open>
  The quotient of two signed operands rounds towards zero; a zero divisor traps.
\<close>

definition c_sdiv :: "int \<Rightarrow> int \<Rightarrow> error + int" where
  "c_sdiv a b =
     (if b = 0 then Inl DivisionByZero
      else if (a < 0) = (b < 0) then Inr (\<bar>a\<bar> div \<bar>b\<bar>)
      else Inr (- (\<bar>a\<bar> div \<bar>b\<bar>)))"

text \<open>
  A product computed in \<^verbatim>\<open>uint32_t\<close> after a cast of the left operand, and a product of
  two fields of 16 bits computed in \<^verbatim>\<open>int\<close>, to which both are promoted.
\<close>

definition u32_mul :: "nat \<Rightarrow> nat \<Rightarrow> nat" where
  "u32_mul a b = (a * b) mod 2 ^ 32"

definition int_mul :: "16 word \<Rightarrow> 16 word \<Rightarrow> int" where
  "int_mul a b = s32 (uint a * uint b)"

subsection \<open>Frames, textures and the frame slot\<close>

text \<open>
  A decoded frame (\<^verbatim>\<open>AVFrame\<close>, of FFmpeg): its dimensions, which are \<^verbatim>\<open>int\<close>, and a
  number standing for its picture. \<^verbatim>\<open>AVCodecContext\<close> keeps the signed dimensions that
  \<^verbatim>\<open>sc_screen_frame_sink_open\<close> checks.
\<close>

record AVFrame =
  frame_width :: int
  frame_height :: int
  frame_data :: nat

datatype AVPixelFormat = AV_PIX_FMT_YUV420P | AV_PIX_FMT_NV12 | AV_PIX_FMT_RGB24

record AVCodecContext =
  pix_fmt :: AVPixelFormat
  ctx_width :: int
  ctx_height :: int

text \<open>
  Modelled from the spec: \<^verbatim>\<open>struct sc_display\<close> and its two operations are in
  \<^verbatim>\<open>display.c\<close>, which is not among the sources. The spec has the rendering surface
  prepared again for a new frame size and the presented image updated from a frame, and
  either can fail. A texture is its size and the frame last uploaded to it; the colour
  space and the colour range of a frame are left out.
\<close>

record SDL_Texture =
  tex_size :: sc_size
  tex_frame :: "AVFrame option"

record sc_display =
  texture :: "SDL_Texture option"

text \<open>
  Modelled from the spec: \<^verbatim>\<open>struct sc_frame_buffer\<close> is in \<^verbatim>\<open>frame_buffer.c\<close>, which is
  not among the sources. The spec's frame slot "holds at most one pending decoded
  frame": \<open>None\<close> is the empty slot, whose frame has been consumed.
\<close>

record sc_frame_buffer =
  pending_frame :: "AVFrame option"

text \<open>
  Modelled from the spec: \<^verbatim>\<open>struct sc_fps_counter\<close> is in \<^verbatim>\<open>fps_counter.c\<close>, which is not
  among the sources. The spec has a rendered-frame count incremented on render and a
  skipped-frame count incremented on overwrite.
\<close>

record sc_fps_counter =
  started :: bool
  nr_rendered :: nat
  nr_skipped :: nat

subsection \<open>What the program sees of its platform\<close>

text \<open>
  The calls that SDL accepted on the window and its renderer are recorded, in order, in
  a log; what SDL answers to a query may depend on every call made before it. The events
  posted to the run loop of the UI thread are a queue. The answers of SDL, the outcome of
  each call and the outcome of each allocation are a parameter of the model, and so are
  two constants of headers that are not among the sources.
\<close>

datatype sdl_call =
    SetWindowSize sc_size
  | SetWindowPosition sc_point
  | SetWindowFullscreen bool
  | ShowWindow
  | RenderClear
  | RenderTexture SDL_Texture SDL_Rect
  | RenderTextureRotated SDL_Texture SDL_Rect sc_orientation
  | RenderPresent

datatype sdl_event =
    SC_EVENT_NEW_FRAME
  | SDL_EVENT_WINDOW_EXPOSED
  | SDL_EVENT_WINDOW_PIXEL_SIZE_CHANGED
  | SDL_EVENT_WINDOW_RESTORED
  | SDL_EVENT_WINDOW_ENTER_FULLSCREEN
  | SDL_EVENT_WINDOW_LEAVE_FULLSCREEN

record window_flags =
  SDL_WINDOW_FULLSCREEN :: bool
  SDL_WINDOW_MINIMIZED :: bool
  SDL_WINDOW_MAXIMIZED :: bool

record platform =
  SDL_GetPrimaryDisplay :: nat
  SDL_GetDisplayUsableBounds :: "nat \<Rightarrow> SDL_Rect option"
  SDL_GetWindowFlags :: "sdl_call list \<Rightarrow> window_flags"
  SDL_GetWindowSize :: "sdl_call list \<Rightarrow> (int \<times> int) option"
  SDL_GetRenderOutputSize :: "sdl_call list \<Rightarrow> (int \<times> int) option"
  SDL_call_ok :: "sdl_call list \<Rightarrow> sdl_call \<Rightarrow> bool"
  SDL_PushEvent :: "sdl_event list \<Rightarrow> sdl_event \<Rightarrow> bool"
  av_frame_ref_ok :: "AVFrame \<Rightarrow> bool"
  create_texture_ok :: "sc_size \<Rightarrow> bool"
  update_texture_ok :: "AVFrame \<Rightarrow> bool"
  sc_fps_counter_start_ok :: bool
  SC_WINDOW_POSITION_UNDEFINED :: int
  SDL_WINDOWPOS_CENTERED :: int

section \<open>The geometry engine\<close>

definition DISPLAY_MARGINS :: int where
  "DISPLAY_MARGINS = 96"

definition get_oriented_size :: "sc_size \<Rightarrow> sc_orientation \<Rightarrow> sc_size" where
  "get_oriented_size sz orientation =
     (if sc_orientation_is_swap orientation
      then \<lparr>width = height sz, height = width sz\<rparr>
      else \<lparr>width = width sz, height = height sz\<rparr>)"

text \<open>
  \<^verbatim>\<open>get_preferred_display_bounds\<close>: \<open>None\<close> is the \<^verbatim>\<open>false\<close> result, and the primary
  display 0 is SDL's failure value. Each bound is an \<^verbatim>\<open>int\<close> stored in a field of 16
  bits.
\<close>

definition get_preferred_display_bounds :: "platform \<Rightarrow> sc_size option" where
  "get_preferred_display_bounds lib =
     (let display = SDL_GetPrimaryDisplay lib in
      if display = 0 then None
      else (case SDL_GetDisplayUsableBounds lib display of
              None \<Rightarrow> None
            | Some rect \<Rightarrow>
                Some \<lparr>width = word_of_int (max 0 (s32 (rect_w rect - DISPLAY_MARGINS))),
                      height = word_of_int (max 0 (s32 (rect_h rect - DISPLAY_MARGINS)))\<rparr>))"

text \<open>
  \<^verbatim>\<open>is_optimal_size\<close>: each product is one of two fields computed in \<^verbatim>\<open>int\<close>, and each
  comparison is one of \<^verbatim>\<open>int\<close> values. The right operand of \<^verbatim>\<open>||\<close> is evaluated only
  when the left one is false, so its division is reached only then.
\<close>

definition is_optimal_size :: "sc_size \<Rightarrow> sc_size \<Rightarrow> error + bool" where
  "is_optimal_size current_size content_size =
     (case c_sdiv (int_mul (width current_size) (height content_size))
                  (uint (width content_size)) of
        Inl e \<Rightarrow> Inl e
      | Inr q1 \<Rightarrow>
          if uint (height current_size) = q1 then Inr True
          else (case c_sdiv (int_mul (height current_size) (width content_size))
                            (uint (height content_size)) of
                  Inl e \<Rightarrow> Inl e
                | Inr q2 \<Rightarrow> Inr (uint (width current_size) = q2)))"

text \<open>
  \<^verbatim>\<open>get_optimal_size\<close>: the quotient, an \<^verbatim>\<open>int\<close>, is stored in a field of 16 bits.
\<close>

definition get_optimal_size :: "platform \<Rightarrow> sc_size \<Rightarrow> sc_size \<Rightarrow> bool \<Rightarrow> error + sc_size" where
  "get_optimal_size lib current_size content_size within_display_bounds =
     (if width content_size = 0 \<or> height content_size = 0 then Inr current_size
      else
        let window_size =
              (if within_display_bounds
               then (case get_preferred_display_bounds lib of
                       None \<Rightarrow> current_size
                     | Some display_size \<Rightarrow>
                         \<lparr>width = min (width current_size) (width display_size),
                          height = min (height current_size) (height display_size)\<rparr>)
               else current_size)
        in case is_optimal_size window_size content_size of
             Inl e \<Rightarrow> Inl e
           | Inr True \<Rightarrow> Inr window_size
           | Inr False \<Rightarrow>
               let keep_width = int_mul (width content_size) (height window_size)
                                  > int_mul (height content_size) (width window_size)
               in if keep_width
                  then (case c_sdiv (int_mul (height content_size) (width window_size))
                                    (uint (width content_size)) of
                          Inl e \<Rightarrow> Inl e
                        | Inr h \<Rightarrow> Inr (window_size\<lparr>height := word_of_int h\<rparr>))
                  else (case c_sdiv (int_mul (width content_size) (height window_size))
                                    (uint (height content_size)) of
                          Inl e \<Rightarrow> Inl e
                        | Inr w \<Rightarrow> Inr (window_size\<lparr>width := word_of_int w\<rparr>)))"

text \<open>
  \<^verbatim>\<open>get_initial_optimal_size\<close>: the two requested dimensions are \<^verbatim>\<open>uint16_t\<close>, each
  product is computed in \<^verbatim>\<open>uint32_t\<close>, and each quotient is stored in a field of 16 bits.
\<close>

definition get_initial_optimal_size ::
  "platform \<Rightarrow> sc_size \<Rightarrow> 16 word \<Rightarrow> 16 word \<Rightarrow> error + sc_size" where
  "get_initial_optimal_size lib content_size req_width req_height =
     (if req_width = 0 \<and> req_height = 0
      then get_optimal_size lib content_size content_size True
      else
        case (if req_width \<noteq> 0 then Inr req_width
              else map_sum id word_of_nat
                     (c_div (u32_mul (unat req_height) (unat (width content_size)))
                            (unat (height content_size)))) of
          Inl e \<Rightarrow> Inl e
        | Inr w \<Rightarrow>
            (case (if req_height \<noteq> 0 then Inr req_height
                   else map_sum id word_of_nat
                          (c_div (u32_mul (unat req_width) (unat (height content_size)))
                                 (unat (width content_size)))) of
               Inl e \<Rightarrow> Inl e
             | Inr h \<Rightarrow> Inr \<lparr>width = w, height = h\<rparr>))"

section \<open>The screen\<close>

text \<open>
  The fields of \<^verbatim>\<open>struct sc_screen\<close> that \<^verbatim>\<open>screen.c\<close> reads or writes, those of its
  member \<^verbatim>\<open>req\<close> with the prefix \<open>req_\<close>. The window and the renderer are the log of
  the calls made on them. \<open>relative_mode\<close> is what \<^verbatim>\<open>sc_screen_is_relative_mode\<close>
  reads from the input manager, and \<open>mouse_capture_active\<close> what
  \<^verbatim>\<open>sc_mouse_capture_set_active\<close> writes. The field \<open>sc_open\<close> is the field
  \<^verbatim>\<open>open\<close> of a build with assertions, which is the build that is modelled.
\<close>

record sc_screen =
  sc_open :: bool
  video :: bool
  display :: sc_display
  fb :: sc_frame_buffer
  fps_counter :: sc_fps_counter
  sdl_calls :: "sdl_call list"
  event_queue :: "sdl_event list"
  req_x :: int
  req_y :: int
  req_width :: "16 word"
  req_height :: "16 word"
  req_fullscreen :: bool
  req_start_fps_counter :: bool
  frame_size :: sc_size
  content_size :: sc_size
  resize_pending :: bool
  windowed_content_size :: sc_size
  orientation :: sc_orientation
  rect :: SDL_Rect
  has_frame :: bool
  has_video_window :: bool
  paused :: bool
  frame :: AVFrame
  resume_frame :: "AVFrame option"
  relative_mode :: bool
  mouse_capture_active :: bool

subsection \<open>The wrappers of \<^verbatim>\<open>util/sdl.c\<close>\<close>

text \<open>
  A call that changes the window or the renderer: when SDL accepts it, it joins the log.
\<close>

definition sdl_do :: "platform \<Rightarrow> sc_screen \<Rightarrow> sdl_call \<Rightarrow> bool \<times> sc_screen" where
  "sdl_do lib screen c =
     (if SDL_call_ok lib (sdl_calls screen) c
      then (True, screen\<lparr>sdl_calls := sdl_calls screen @ [c]\<rparr>)
      else (False, screen))"

text \<open>
  The two queries call \<^verbatim>\<open>abort()\<close> when SDL fails, and store the two \<^verbatim>\<open>int\<close> that SDL
  gives in fields of 16 bits.
\<close>

definition sc_sdl_get_window_size :: "platform \<Rightarrow> sc_screen \<Rightarrow> error + sc_size" where
  "sc_sdl_get_window_size lib screen =
     (case SDL_GetWindowSize lib (sdl_calls screen) of
        None \<Rightarrow> Inl Aborted
      | Some (w, h) \<Rightarrow> Inr \<lparr>width = word_of_int w, height = word_of_int h\<rparr>)"

definition sc_sdl_get_render_output_size :: "platform \<Rightarrow> sc_screen \<Rightarrow> error + sc_size" where
  "sc_sdl_get_render_output_size lib screen =
     (case SDL_GetRenderOutputSize lib (sdl_calls screen) of
        None \<Rightarrow> Inl Aborted
      | Some (w, h) \<Rightarrow> Inr \<lparr>width = word_of_int w, height = word_of_int h\<rparr>)"

text \<open>The setters end in \<^verbatim>\<open>assert(!"unexpected")\<close> when SDL fails.\<close>

definition sc_sdl_set_window_size :: "platform \<Rightarrow> sc_screen \<Rightarrow> sc_size \<Rightarrow> error + sc_screen" where
  "sc_sdl_set_window_size lib screen sz =
     (let (ok, screen1) = sdl_do lib screen (SetWindowSize sz)
      in if ok then Inr screen1 else Inl AssertionFailed)"

definition sc_sdl_set_window_position ::
  "platform \<Rightarrow> sc_screen \<Rightarrow> sc_point \<Rightarrow> error + sc_screen" where
  "sc_sdl_set_window_position lib screen point =
     (let (ok, screen1) = sdl_do lib screen (SetWindowPosition point)
      in if ok then Inr screen1 else Inl AssertionFailed)"

definition sc_sdl_show_window :: "platform \<Rightarrow> sc_screen \<Rightarrow> error + sc_screen" where
  "sc_sdl_show_window lib screen =
     (let (ok, screen1) = sdl_do lib screen ShowWindow
      in if ok then Inr screen1 else Inl AssertionFailed)"

definition sc_sdl_render_clear :: "platform \<Rightarrow> sc_screen \<Rightarrow> bool \<times> sc_screen" where
  "sc_sdl_render_clear lib screen = sdl_do lib screen RenderClear"

definition sc_sdl_render_present :: "platform \<Rightarrow> sc_screen \<Rightarrow> error + sc_screen" where
  "sc_sdl_render_present lib screen =
     (let (ok, screen1) = sdl_do lib screen RenderPresent
      in if ok then Inr screen1 else Inl AssertionFailed)"

subsection \<open>Collaborators that are not among the sources\<close>

text \<open>
  Modelled from the spec: \<^verbatim>\<open>sc_frame_buffer_push\<close> is in \<^verbatim>\<open>frame_buffer.c\<close>, which is not
  among the sources. The spec has \<open>push(frame) -> (ok, was_previous_overwritten)\<close>:
  "it stores the new frame into the slot, and if a not-yet-consumed frame was already
  present, reports was_previous_overwritten=true"; "allocation failure while copying a
  frame is reported to the caller; the slot remains in a consistent (previous) state".
\<close>

definition sc_frame_buffer_push ::
  "platform \<Rightarrow> sc_frame_buffer \<Rightarrow> AVFrame \<Rightarrow> bool \<times> sc_frame_buffer \<times> bool" where
  "sc_frame_buffer_push lib buf new_frame =
     (if av_frame_ref_ok lib new_frame
      then (True, buf\<lparr>pending_frame := Some new_frame\<rparr>, pending_frame buf \<noteq> None)
      else (False, buf, False))"

text \<open>
  Modelled from the spec: \<^verbatim>\<open>sc_push_event\<close> is in \<^verbatim>\<open>events.c\<close>, which is not among the
  sources. The spec has a "one-shot signal posted to the consumer context's run loop";
  posting can fail.
\<close>

definition sc_push_event :: "platform \<Rightarrow> sc_screen \<Rightarrow> sdl_event \<Rightarrow> bool \<times> sc_screen" where
  "sc_push_event lib screen ev =
     (if SDL_PushEvent lib (event_queue screen) ev
      then (True, screen\<lparr>event_queue := event_queue screen @ [ev]\<rparr>)
      else (False, screen))"

text \<open>
  Modelled from the spec: the operations of the counter are in \<^verbatim>\<open>fps_counter.c\<close>, which
  is not among the sources. The spec has the rendered-frame count incremented by the
  consumer on render and the skipped-frame count by the producer on overwrite.
\<close>

definition sc_fps_counter_add_rendered_frame :: "sc_fps_counter \<Rightarrow> sc_fps_counter" where
  "sc_fps_counter_add_rendered_frame counter = counter\<lparr>nr_rendered := nr_rendered counter + 1\<rparr>"

definition sc_fps_counter_add_skipped_frame :: "sc_fps_counter \<Rightarrow> sc_fps_counter" where
  "sc_fps_counter_add_skipped_frame counter = counter\<lparr>nr_skipped := nr_skipped counter + 1\<rparr>"

definition sc_fps_counter_start :: "platform \<Rightarrow> sc_fps_counter \<Rightarrow> sc_fps_counter" where
  "sc_fps_counter_start lib counter =
     (if sc_fps_counter_start_ok lib then counter\<lparr>started := True\<rparr> else counter)"

text \<open>
  Modelled from the spec: \<^verbatim>\<open>sc_display_prepare_texture\<close> and
  \<^verbatim>\<open>sc_display_update_texture\<close> are in \<^verbatim>\<open>display.c\<close>, which is not among the sources.
  The spec has the screen "reprepare the rendering surface for the new size" and "update
  the presented image"; a failure is "surfaced to caller as failure; frame is dropped,
  pipeline continues with the previous rendered image".
\<close>

definition sc_display_prepare_texture ::
  "platform \<Rightarrow> sc_display \<Rightarrow> sc_size \<Rightarrow> bool \<times> sc_display" where
  "sc_display_prepare_texture lib disp sz =
     (if create_texture_ok lib sz
      then (True, disp\<lparr>texture := Some \<lparr>tex_size = sz, tex_frame = None\<rparr>\<rparr>)
      else (False, disp))"

definition sc_display_update_texture ::
  "platform \<Rightarrow> sc_display \<Rightarrow> AVFrame \<Rightarrow> bool \<times> sc_display" where
  "sc_display_update_texture lib disp new_frame =
     (case texture disp of
        None \<Rightarrow> (False, disp)
      | Some tex \<Rightarrow>
          if update_texture_ok lib new_frame
          then (True, disp\<lparr>texture := Some (tex\<lparr>tex_frame := Some new_frame\<rparr>)\<rparr>)
          else (False, disp))"

section \<open>The screen controller\<close>

definition is_windowed :: "platform \<Rightarrow> sc_screen \<Rightarrow> bool" where
  "is_windowed lib screen =
     (let flags = SDL_GetWindowFlags lib (sdl_calls screen)
      in \<not> (SDL_WINDOW_FULLSCREEN flags \<or> SDL_WINDOW_MINIMIZED flags
             \<or> SDL_WINDOW_MAXIMIZED flags))"

definition sc_screen_is_relative_mode :: "sc_screen \<Rightarrow> bool" where
  "sc_screen_is_relative_mode screen = relative_mode screen"

text \<open>
  \<^verbatim>\<open>sc_screen_update_content_rect\<close>. The products are those of two fields, computed in
  \<^verbatim>\<open>int\<close>, and so are the quotients and the offsets, which go into the \<^verbatim>\<open>int\<close> fields
  of the rectangle.
\<close>

definition sc_screen_update_content_rect :: "platform \<Rightarrow> sc_screen \<Rightarrow> error + sc_screen" where
  "sc_screen_update_content_rect lib screen =
     (if \<not> video screen then Inl AssertionFailed
      else
        case sc_sdl_get_render_output_size lib screen of
          Inl e \<Rightarrow> Inl e
        | Inr render_size \<Rightarrow>
            (let csize = content_size screen in
             case is_optimal_size render_size csize of
              Inl e \<Rightarrow> Inl e
            | Inr True \<Rightarrow>
                Inr (screen\<lparr>rect := \<lparr>rect_x = 0, rect_y = 0,
                                      rect_w = uint (width render_size),
                                      rect_h = uint (height render_size)\<rparr>\<rparr>)
            | Inr False \<Rightarrow>
                let keep_width = int_mul (width csize) (height render_size)
                                   > int_mul (height csize) (width render_size)
                in if keep_width
                   then (case c_sdiv (int_mul (width render_size) (height csize))
                                     (uint (width csize)) of
                           Inl e \<Rightarrow> Inl e
                         | Inr h \<Rightarrow>
                             (case c_sdiv (s32 (uint (height render_size) - h)) 2 of
                                Inl e \<Rightarrow> Inl e
                              | Inr y \<Rightarrow>
                                  Inr (screen\<lparr>rect := \<lparr>rect_x = 0, rect_y = y,
                                                        rect_w = uint (width render_size),
                                                        rect_h = h\<rparr>\<rparr>)))
                   else (case c_sdiv (int_mul (height render_size) (width csize))
                                     (uint (height csize)) of
                           Inl e \<Rightarrow> Inl e
                         | Inr w \<Rightarrow>
                             (case c_sdiv (s32 (uint (width render_size) - w)) 2 of
                                Inl e \<Rightarrow> Inl e
                              | Inr x \<Rightarrow>
                                  Inr (screen\<lparr>rect := \<lparr>rect_x = x, rect_y = 0,
                                                        rect_w = w,
                                                        rect_h = uint (height render_size)\<rparr>\<rparr>)))))"

text \<open>
  \<^verbatim>\<open>sc_screen_render\<close>. The destination rectangle of a rotated texture is computed in
  floating point from the content rectangle; the log keeps the content rectangle and the
  orientation. A failure to clear or to draw is logged by the program and the frame is
  presented all the same.
\<close>

definition sc_screen_render :: "platform \<Rightarrow> sc_screen \<Rightarrow> bool \<Rightarrow> error + sc_screen" where
  "sc_screen_render lib screen update_content_rect =
     (if \<not> video screen then Inl AssertionFailed
      else if \<not> has_video_window screen then Inl AssertionFailed
      else
        case (if update_content_rect then sc_screen_update_content_rect lib screen
              else Inr screen) of
          Inl e \<Rightarrow> Inl e
        | Inr screen1 \<Rightarrow>
            let screen2 = snd (sc_sdl_render_clear lib screen1);
                screen3 =
                  (case texture (display screen2) of
                     None \<Rightarrow> screen2
                   | Some tex \<Rightarrow>
                       if orientation screen2 = SC_ORIENTATION_0
                       then snd (sdl_do lib screen2 (RenderTexture tex (rect screen2)))
                       else snd (sdl_do lib screen2
                                   (RenderTextureRotated tex (rect screen2)
                                      (orientation screen2))))
            in sc_sdl_render_present lib screen3)"

subsection \<open>The frame sink\<close>

text \<open>
  \<^verbatim>\<open>sc_screen_frame_sink_open\<close>: the pixel format is asserted, the dimensions are
  checked, and a build with assertions sets the field \<^verbatim>\<open>open\<close>.
\<close>

definition sc_screen_frame_sink_open ::
  "sc_screen \<Rightarrow> AVCodecContext \<Rightarrow> error + (bool \<times> sc_screen)" where
  "sc_screen_frame_sink_open screen ctx =
     (if pix_fmt ctx \<noteq> AV_PIX_FMT_YUV420P then Inl AssertionFailed
      else if ctx_width ctx \<le> 0 \<or> ctx_width ctx > 0xFFFF
              \<or> ctx_height ctx \<le> 0 \<or> ctx_height ctx > 0xFFFF
      then Inr (False, screen)
      else Inr (True, screen\<lparr>sc_open := True\<rparr>))"

definition sc_screen_frame_sink_close :: "sc_screen \<Rightarrow> sc_screen" where
  "sc_screen_frame_sink_close screen = screen\<lparr>sc_open := False\<rparr>"

definition sc_screen_frame_sink_push ::
  "platform \<Rightarrow> sc_screen \<Rightarrow> AVFrame \<Rightarrow> error + (bool \<times> sc_screen)" where
  "sc_screen_frame_sink_push lib screen new_frame =
     (if \<not> video screen then Inl AssertionFailed
      else
        let (ok, buf, previous_skipped) = sc_frame_buffer_push lib (fb screen) new_frame
        in if \<not> ok then Inr (False, screen)
           else
             let screen1 = screen\<lparr>fb := buf\<rparr>
             in if previous_skipped
                then Inr (True, screen1\<lparr>fps_counter :=
                                          sc_fps_counter_add_skipped_frame (fps_counter screen1)\<rparr>)
                else
                  let (ok2, screen2) = sc_push_event lib screen1 SC_EVENT_NEW_FRAME
                  in if \<not> ok2 then Inr (False, screen2) else Inr (True, screen2))"

text \<open>A run of pushes by the producer, with no consume in between, until one fails.\<close>

fun push_frames :: "platform \<Rightarrow> sc_screen \<Rightarrow> AVFrame list \<Rightarrow> error + (bool \<times> sc_screen)" where
  "push_frames lib screen [] = Inr (True, screen)"
| "push_frames lib screen (f # fs) =
     (case sc_screen_frame_sink_push lib screen f of
        Inl e \<Rightarrow> Inl e
      | Inr (ok, screen1) \<Rightarrow>
          if ok then push_frames lib screen1 fs else Inr (False, screen1))"

text \<open>The "frame ready" notifications that wait in the queue.\<close>

definition pending_notifications :: "sc_screen \<Rightarrow> nat" where
  "pending_notifications screen =
     length (filter (\<lambda>ev. ev = SC_EVENT_NEW_FRAME) (event_queue screen))"

subsection \<open>The window\<close>

text \<open>
  \<^verbatim>\<open>sc_screen_toggle_fullscreen\<close>: the request may be refused, which the program logs.
\<close>

definition sc_screen_toggle_fullscreen :: "platform \<Rightarrow> sc_screen \<Rightarrow> error + sc_screen" where
  "sc_screen_toggle_fullscreen lib screen =
     (if \<not> video screen then Inl AssertionFailed
      else
        let req_fullscreen =
              \<not> SDL_WINDOW_FULLSCREEN (SDL_GetWindowFlags lib (sdl_calls screen))
        in Inr (snd (sdl_do lib screen (SetWindowFullscreen req_fullscreen))))"

definition sc_screen_show_initial_window :: "platform \<Rightarrow> sc_screen \<Rightarrow> error + sc_screen" where
  "sc_screen_show_initial_window lib screen =
     (let x = (if req_x screen \<noteq> SC_WINDOW_POSITION_UNDEFINED lib
               then req_x screen else SDL_WINDOWPOS_CENTERED lib);
          y = (if req_y screen \<noteq> SC_WINDOW_POSITION_UNDEFINED lib
               then req_y screen else SDL_WINDOWPOS_CENTERED lib);
          position = \<lparr>point_x = x, point_y = y\<rparr>
      in case get_initial_optimal_size lib (content_size screen)
                (req_width screen) (req_height screen) of
           Inl e \<Rightarrow> Inl e
         | Inr window_size \<Rightarrow>
             if \<not> is_windowed lib screen then Inl AssertionFailed
             else
               (case sc_sdl_set_window_size lib screen window_size of
                  Inl e \<Rightarrow> Inl e
                | Inr screen1 \<Rightarrow>
                    (case sc_sdl_set_window_position lib screen1 position of
                       Inl e \<Rightarrow> Inl e
                     | Inr screen2 \<Rightarrow>
                         (case (if req_fullscreen screen2
                                then sc_screen_toggle_fullscreen lib screen2
                                else Inr screen2) of
                            Inl e \<Rightarrow> Inl e
                          | Inr screen3 \<Rightarrow>
                              (let screen4 =
                                     (if req_start_fps_counter screen3
                                      then screen3\<lparr>fps_counter :=
                                             sc_fps_counter_start lib (fps_counter screen3)\<rparr>
                                      else screen3)
                               in case sc_sdl_show_window lib screen4 of
                                    Inl e \<Rightarrow> Inl e
                                  | Inr screen5 \<Rightarrow>
                                      sc_screen_update_content_rect lib screen5)))))"

text \<open>
  \<^verbatim>\<open>resize_for_content\<close>: each dimension of the window is scaled by the ratio of the new
  content size to the old one, in \<^verbatim>\<open>uint32_t\<close>, and stored in a field of 16 bits, before
  the optimal size is taken.
\<close>

definition resize_for_content ::
  "platform \<Rightarrow> sc_screen \<Rightarrow> sc_size \<Rightarrow> sc_size \<Rightarrow> error + sc_screen" where
  "resize_for_content lib screen old_content_size new_content_size =
     (if \<not> video screen then Inl AssertionFailed
      else
        case sc_sdl_get_window_size lib screen of
          Inl e \<Rightarrow> Inl e
        | Inr window_size \<Rightarrow>
            (case c_div (u32_mul (unat (width window_size)) (unat (width new_content_size)))
                        (unat (width old_content_size)) of
               Inl e \<Rightarrow> Inl e
             | Inr w \<Rightarrow>
                 (case c_div (u32_mul (unat (height window_size))
                                (unat (height new_content_size)))
                             (unat (height old_content_size)) of
                    Inl e \<Rightarrow> Inl e
                  | Inr h \<Rightarrow>
                      (case get_optimal_size lib
                              \<lparr>width = word_of_nat w, height = word_of_nat h\<rparr>
                              new_content_size True of
                         Inl e \<Rightarrow> Inl e
                       | Inr target \<Rightarrow>
                           if \<not> is_windowed lib screen then Inl AssertionFailed
                           else sc_sdl_set_window_size lib screen target))))"

definition set_content_size :: "platform \<Rightarrow> sc_screen \<Rightarrow> sc_size \<Rightarrow> error + sc_screen" where
  "set_content_size lib screen new_content_size =
     (if \<not> video screen then Inl AssertionFailed
      else
        case (if is_windowed lib screen
              then resize_for_content lib screen (content_size screen) new_content_size
              else if \<not> resize_pending screen
              then Inr (screen\<lparr>windowed_content_size := content_size screen,
                               resize_pending := True\<rparr>)
              else Inr screen) of
          Inl e \<Rightarrow> Inl e
        | Inr screen1 \<Rightarrow> Inr (screen1\<lparr>content_size := new_content_size\<rparr>))"

definition apply_pending_resize :: "platform \<Rightarrow> sc_screen \<Rightarrow> error + sc_screen" where
  "apply_pending_resize lib screen =
     (if \<not> video screen then Inl AssertionFailed
      else if \<not> is_windowed lib screen then Inl AssertionFailed
      else if resize_pending screen
      then (case resize_for_content lib screen (windowed_content_size screen)
                   (content_size screen) of
              Inl e \<Rightarrow> Inl e
            | Inr screen1 \<Rightarrow> Inr (screen1\<lparr>resize_pending := False\<rparr>))
      else Inr screen)"

text \<open>A run of calls of \<^verbatim>\<open>set_content_size\<close>, one for each size of the list.\<close>

fun set_content_sizes :: "platform \<Rightarrow> sc_screen \<Rightarrow> sc_size list \<Rightarrow> error + sc_screen" where
  "set_content_sizes lib screen [] = Inr screen"
| "set_content_sizes lib screen (n # ns) =
     (case set_content_size lib screen n of
        Inl e \<Rightarrow> Inl e
      | Inr screen1 \<Rightarrow> set_content_sizes lib screen1 ns)"

definition sc_screen_set_orientation ::
  "platform \<Rightarrow> sc_screen \<Rightarrow> sc_orientation \<Rightarrow> error + sc_screen" where
  "sc_screen_set_orientation lib screen new_orientation =
     (if \<not> video screen then Inl AssertionFailed
      else if new_orientation = orientation screen then Inr screen
      else
        let new_content_size = get_oriented_size (frame_size screen) new_orientation
        in case set_content_size lib screen new_content_size of
             Inl e \<Rightarrow> Inl e
           | Inr screen1 \<Rightarrow>
               sc_screen_render lib (screen1\<lparr>orientation := new_orientation\<rparr>) True)"

subsection \<open>Frames and pause\<close>

text \<open>
  \<^verbatim>\<open>sc_screen_apply_frame\<close> presents the frame held in the field \<^verbatim>\<open>frame\<close>. The first
  component of the result is the value returned; \<open>geometry\<close> is the block that runs
  when the frame is the first one or its size differs from the last one. The dimensions of
  the frame, which are \<^verbatim>\<open>int\<close>, are stored in fields of 16 bits.
\<close>

definition sc_screen_apply_frame :: "platform \<Rightarrow> sc_screen \<Rightarrow> error + (bool \<times> sc_screen)" where
  "sc_screen_apply_frame lib screen =
     (if \<not> video screen then Inl AssertionFailed
      else
        let screen1 = screen\<lparr>fps_counter :=
                               sc_fps_counter_add_rendered_frame (fps_counter screen)\<rparr>;
            new_frame_size = \<lparr>width = word_of_int (frame_width (frame screen1)),
                              height = word_of_int (frame_height (frame screen1))\<rparr>;
            geometry =
              (if \<not> has_frame screen1
                  \<or> width (frame_size screen1) \<noteq> width new_frame_size
                  \<or> height (frame_size screen1) \<noteq> height new_frame_size
               then
                 (let (ok, disp) =
                        sc_display_prepare_texture lib (display screen1) new_frame_size
                  in if \<not> ok then Inr (False, screen1\<lparr>display := disp\<rparr>)
                     else
                       let screen2 = screen1\<lparr>display := disp, frame_size := new_frame_size\<rparr>;
                           new_content_size =
                             get_oriented_size new_frame_size (orientation screen2)
                       in if has_frame screen2
                          then (case set_content_size lib screen2 new_content_size of
                                  Inl e \<Rightarrow> Inl e
                                | Inr screen3 \<Rightarrow>
                                    (case sc_screen_update_content_rect lib screen3 of
                                       Inl e \<Rightarrow> Inl e
                                     | Inr screen4 \<Rightarrow> Inr (True, screen4)))
                          else Inr (True, screen2\<lparr>has_frame := True,
                                                  content_size := new_content_size\<rparr>))
               else Inr (True, screen1))
        in case geometry of
             Inl e \<Rightarrow> Inl e
           | Inr (proceed, screen5) \<Rightarrow>
               if \<not> proceed then Inr (False, screen5)
               else
                 (let (ok, disp) =
                        sc_display_update_texture lib (display screen5) (frame screen5)
                  in if \<not> ok then Inr (False, screen5\<lparr>display := disp\<rparr>)
                     else
                       let screen6 = screen5\<lparr>display := disp\<rparr>
                       in if \<not> has_frame screen6 then Inl AssertionFailed
                          else
                            (case (if \<not> has_video_window screen6
                                   then (case sc_screen_show_initial_window lib
                                                (screen6\<lparr>has_video_window := True\<rparr>) of
                                           Inl e \<Rightarrow> Inl e
                                         | Inr screen7 \<Rightarrow>
                                             Inr (if sc_screen_is_relative_mode screen7
                                                  then screen7\<lparr>mouse_capture_active := True\<rparr>
                                                  else screen7))
                                   else Inr screen6) of
                               Inl e \<Rightarrow> Inl e
                             | Inr screen8 \<Rightarrow>
                                 (case sc_screen_render lib screen8 False of
                                    Inl e \<Rightarrow> Inl e
                                  | Inr screen9 \<Rightarrow> Inr (True, screen9)))))"

text \<open>
  \<^verbatim>\<open>sc_screen_set_paused\<close>: a failure of \<^verbatim>\<open>sc_screen_apply_frame\<close> is logged and the
  function goes on.
\<close>

definition sc_screen_set_paused :: "platform \<Rightarrow> sc_screen \<Rightarrow> bool \<Rightarrow> error + sc_screen" where
  "sc_screen_set_paused lib screen new_paused =
     (if \<not> video screen then Inl AssertionFailed
      else if \<not> new_paused \<and> \<not> paused screen then Inr screen
      else
        case (case (if paused screen then resume_frame screen else None) of
                None \<Rightarrow> Inr screen
              | Some held \<Rightarrow>
                  (case sc_screen_apply_frame lib
                          (screen\<lparr>frame := held, resume_frame := None\<rparr>) of
                     Inl e \<Rightarrow> Inl e
                   | Inr (ok, screen1) \<Rightarrow> Inr screen1)) of
          Inl e \<Rightarrow> Inl e
        | Inr screen2 \<Rightarrow> Inr (screen2\<lparr>paused := new_paused\<rparr>))"

text \<open>
  The frames presented so far: one for each accepted \<^verbatim>\<open>SDL_RenderPresent\<close>; and the
  textures drawn so far: one for each accepted \<^verbatim>\<open>SDL_RenderTexture\<close> or
  \<^verbatim>\<open>SDL_RenderTextureRotated\<close>.
\<close>

definition presents :: "sc_screen \<Rightarrow> nat" where
  "presents screen = length (filter (\<lambda>c. c = RenderPresent) (sdl_calls screen))"

fun is_draw :: "sdl_call \<Rightarrow> bool" where
  "is_draw (RenderTexture tex r) = True"
| "is_draw (RenderTextureRotated tex r ori) = True"
| "is_draw c = False"

definition draws :: "sc_screen \<Rightarrow> nat" where
  "draws screen = length (filter is_draw (sdl_calls screen))"

text \<open>
  The call by which \<^verbatim>\<open>sc_screen_render\<close> draws the texture of a screen: that of
  \<^verbatim>\<open>SDL_RenderTexture\<close> for the orientation 0, that of \<^verbatim>\<open>SDL_RenderTextureRotated\<close>
  for the seven others.
\<close>

definition draw_call :: "sc_screen \<Rightarrow> SDL_Texture \<Rightarrow> sdl_call" where
  "draw_call screen tex =
     (if orientation screen = SC_ORIENTATION_0 then RenderTexture tex (rect screen)
      else RenderTextureRotated tex (rect screen) (orientation screen))"

subsection \<open>From the drawable to the frame\<close>

text \<open>
  \<^verbatim>\<open>sc_screen_convert_drawable_to_frame_coords\<close>. The difference is computed in
  \<^verbatim>\<open>int32_t\<close>, the product and the quotient in \<^verbatim>\<open>int64_t\<close>, and the quotient is stored
  in an \<^verbatim>\<open>int32_t\<close>, as are the coordinates of the result.
\<close>

definition sc_screen_convert_drawable_to_frame_coords ::
  "sc_screen \<Rightarrow> int \<Rightarrow> int \<Rightarrow> error + sc_point" where
  "sc_screen_convert_drawable_to_frame_coords screen x y =
     (if \<not> video screen then Inl AssertionFailed
      else
        let w = uint (width (content_size screen));
            h = uint (height (content_size screen))
        in if \<not> (rect_w (rect screen) \<noteq> 0 \<and> rect_h (rect screen) \<noteq> 0)
           then Inl AssertionFailed
           else
             (case c_sdiv (s64 (s32 (x - rect_x (rect screen)) * w)) (rect_w (rect screen)) of
                Inl e \<Rightarrow> Inl e
              | Inr qx \<Rightarrow>
                  (case c_sdiv (s64 (s32 (y - rect_y (rect screen)) * h))
                               (rect_h (rect screen)) of
                     Inl e \<Rightarrow> Inl e
                   | Inr qy \<Rightarrow>
                       (let x1 = s32 qx; y1 = s32 qy
                        in Inr (case orientation screen of
                              SC_ORIENTATION_0 \<Rightarrow> \<lparr>point_x = x1, point_y = y1\<rparr>
                            | SC_ORIENTATION_90 \<Rightarrow> \<lparr>point_x = y1, point_y = s32 (w - x1)\<rparr>
                            | SC_ORIENTATION_180 \<Rightarrow>
                                \<lparr>point_x = s32 (w - x1), point_y = s32 (h - y1)\<rparr>
                            | SC_ORIENTATION_270 \<Rightarrow> \<lparr>point_x = s32 (h - y1), point_y = x1\<rparr>
                            | SC_ORIENTATION_FLIP_0 \<Rightarrow> \<lparr>point_x = s32 (w - x1), point_y = y1\<rparr>
                            | SC_ORIENTATION_FLIP_90 \<Rightarrow>
                                \<lparr>point_x = s32 (h - y1), point_y = s32 (w - x1)\<rparr>
                            | SC_ORIENTATION_FLIP_180 \<Rightarrow> \<lparr>point_x = x1, point_y = s32 (h - y1)\<rparr>
                            | SC_ORIENTATION_FLIP_270 \<Rightarrow> \<lparr>point_x = y1, point_y = x1\<rparr>)))))"

text \<open>
  The way back is not part of the program. \<open>inverse_orientation_transform\<close> undoes the
  case of the switch for an orientation, given the width and the height of the content.
  The program scales a coordinate \<open>d\<close> of a rectangle of extent \<open>r\<close> to the coordinate
  \<open>d * w div r\<close> of a content of extent \<open>w\<close>; the coordinates that it scales to \<open>q\<close>
  are those from \<open>preimage_first q r w\<close> to \<open>preimage_last q r w\<close>, and \<open>scale_back\<close> is
  the middle one. \<open>frame_to_drawable_coords\<close> undoes the orientation, scales back and adds
  the origin of the content rectangle: it is a function of the point of the frame alone.
  These are stated on the integers.
\<close>

fun inverse_orientation_transform ::
  "sc_orientation \<Rightarrow> int \<Rightarrow> int \<Rightarrow> sc_point \<Rightarrow> sc_point" where
  "inverse_orientation_transform SC_ORIENTATION_0 w h p = p"
| "inverse_orientation_transform SC_ORIENTATION_90 w h p =
     \<lparr>point_x = w - point_y p, point_y = point_x p\<rparr>"
| "inverse_orientation_transform SC_ORIENTATION_180 w h p =
     \<lparr>point_x = w - point_x p, point_y = h - point_y p\<rparr>"
| "inverse_orientation_transform SC_ORIENTATION_270 w h p =
     \<lparr>point_x = point_y p, point_y = h - point_x p\<rparr>"
| "inverse_orientation_transform SC_ORIENTATION_FLIP_0 w h p =
     \<lparr>point_x = w - point_x p, point_y = point_y p\<rparr>"
| "inverse_orientation_transform SC_ORIENTATION_FLIP_90 w h p =
     \<lparr>point_x = w - point_y p, point_y = h - point_x p\<rparr>"
| "inverse_orientation_transform SC_ORIENTATION_FLIP_180 w h p =
     \<lparr>point_x = point_x p, point_y = h - point_y p\<rparr>"
| "inverse_orientation_transform SC_ORIENTATION_FLIP_270 w h p =
     \<lparr>point_x = point_y p, point_y = point_x p\<rparr>"

definition ceil_div :: "int \<Rightarrow> int \<Rightarrow> int" where
  "ceil_div a b = (a + b - 1) div b"

definition preimage_first :: "int \<Rightarrow> int \<Rightarrow> int \<Rightarrow> int" where
  "preimage_first q r w = ceil_div (q * r) w"

definition preimage_last :: "int \<Rightarrow> int \<Rightarrow> int \<Rightarrow> int" where
  "preimage_last q r w = ceil_div ((q + 1) * r) w - 1"

definition scale_back :: "int \<Rightarrow> int \<Rightarrow> int \<Rightarrow> int" where
  "scale_back q r w = (preimage_first q r w + preimage_last q r w) div 2"

definition frame_to_drawable_coords :: "sc_screen \<Rightarrow> sc_point \<Rightarrow> sc_point" where
  "frame_to_drawable_coords screen p =
     (let w = uint (width (content_size screen));
          h = uint (height (content_size screen));
          q = inverse_orientation_transform (orientation screen) w h p
      in \<lparr>point_x = rect_x (rect screen) + scale_back (point_x q) (rect_w (rect screen)) w,
          point_y = rect_y (rect screen) + scale_back (point_y q) (rect_h (rect screen)) h\<rparr>)"

section \<open>A platform and a screen to run the program on\<close>

text \<open>
  An SDL that accepts every call and answers every query: the display has 1920x1080
  usable pixels, the window is 256x256 until its size is set, the render output has the
  size of the window, and the window is in none of the fullscreen, minimized and
  maximized states. Every allocation succeeds.
\<close>

fun window_size_after :: "int \<times> int \<Rightarrow> sdl_call list \<Rightarrow> int \<times> int" where
  "window_size_after sz [] = sz"
| "window_size_after sz (SetWindowSize n # cs) =
     window_size_after (uint (width n), uint (height n)) cs"
| "window_size_after sz (_ # cs) = window_size_after sz cs"

definition example_platform :: platform where
  "example_platform =
     \<lparr>SDL_GetPrimaryDisplay = 1,
      SDL_GetDisplayUsableBounds =
        (\<lambda>d. Some \<lparr>rect_x = 0, rect_y = 0, rect_w = 1920, rect_h = 1080\<rparr>),
      SDL_GetWindowFlags =
        (\<lambda>cs. \<lparr>SDL_WINDOW_FULLSCREEN = False, SDL_WINDOW_MINIMIZED = False,
                SDL_WINDOW_MAXIMIZED = False\<rparr>),
      SDL_GetWindowSize = (\<lambda>cs. Some (window_size_after (256, 256) cs)),
      SDL_GetRenderOutputSize = (\<lambda>cs. Some (window_size_after (256, 256) cs)),
      SDL_call_ok = (\<lambda>cs c. True),
      SDL_PushEvent = (\<lambda>q ev. True),
      av_frame_ref_ok = (\<lambda>f. True),
      create_texture_ok = (\<lambda>sz. True),
      update_texture_ok = (\<lambda>f. True),
      sc_fps_counter_start_ok = True,
      SC_WINDOW_POSITION_UNDEFINED = - 32768,
      SDL_WINDOWPOS_CENTERED = 805240832\<rparr>"

text \<open>The same platform with the window in fullscreen.\<close>

definition fullscreen_platform :: platform where
  "fullscreen_platform =
     example_platform\<lparr>SDL_GetWindowFlags :=
        (\<lambda>cs. \<lparr>SDL_WINDOW_FULLSCREEN = True, SDL_WINDOW_MINIMIZED = False,
                SDL_WINDOW_MAXIMIZED = False\<rparr>)\<rparr>"

text \<open>The same platform when no texture can be updated.\<close>

definition exhausted_platform :: platform where
  "exhausted_platform = example_platform\<lparr>update_texture_ok := (\<lambda>f. False)\<rparr>"

text \<open>The same platform when SDL refuses to draw a texture.\<close>

definition refusing_platform :: platform where
  "refusing_platform = example_platform\<lparr>SDL_call_ok := (\<lambda>cs c. \<not> is_draw c)\<rparr>"

text \<open>
  A screen that mirrors a video of 1080x1920 in a window of 540x960, after its first
  frame has been presented.
\<close>

definition example_frame :: AVFrame where
  "example_frame = \<lparr>frame_width = 1080, frame_height = 1920, frame_data = 1\<rparr>"

definition example_screen :: sc_screen where
  "example_screen =
     \<lparr>sc_open = True,
      video = True,
      display = \<lparr>texture = Some \<lparr>tex_size = \<lparr>width = 1080, height = 1920\<rparr>,
                                 tex_frame = Some example_frame\<rparr>\<rparr>,
      fb = \<lparr>pending_frame = None\<rparr>,
      fps_counter = \<lparr>started = False, nr_rendered = 1, nr_skipped = 0\<rparr>,
      sdl_calls = [SetWindowSize \<lparr>width = 540, height = 960\<rparr>, ShowWindow],
      event_queue = [],
      req_x = - 32768,
      req_y = - 32768,
      req_width = 0,
      req_height = 0,
      req_fullscreen = False,
      req_start_fps_counter = False,
      frame_size = \<lparr>width = 1080, height = 1920\<rparr>,
      content_size = \<lparr>width = 1080, height = 1920\<rparr>,
      resize_pending = False,
      windowed_content_size = \<lparr>width = 0, height = 0\<rparr>,
      orientation = SC_ORIENTATION_0,
      rect = \<lparr>rect_x = 0, rect_y = 0, rect_w = 540, rect_h = 960\<rparr>,
      has_frame = True,
      has_video_window = True,
      paused = False,
      frame = example_frame,
      resume_frame = None,
      relative_mode = False,
      mouse_capture_active = False\<rparr>"

text \<open>
  What the calls on the window leave alone: the frames, the pause, the display, the
  content size, the number of frames presented and the number of textures drawn.
\<close>

definition playback_kept :: "sc_screen \<Rightarrow> sc_screen \<Rightarrow> bool" where
  "playback_kept s s' \<longleftrightarrow>
     frame s' = frame s \<and> resume_frame s' = resume_frame s \<and> paused s' = paused s
     \<and> video s' = video s \<and> display s' = display s \<and> has_frame s' = has_frame s
     \<and> has_video_window s' = has_video_window s \<and> content_size s' = content_size s
     \<and> presents s' = presents s \<and> draws s' = draws s"

text \<open>
  An SDL that accepts every call and answers the queries for the size of the window and
  of the render output.
\<close>

definition sdl_answers :: "platform \<Rightarrow> bool" where
  "sdl_answers lib \<longleftrightarrow>
     (\<forall>cs c. SDL_call_ok lib cs c)
     \<and> (\<forall>cs. SDL_GetWindowSize lib cs \<noteq> None)
     \<and> (\<forall>cs. SDL_GetRenderOutputSize lib cs \<noteq> None)"

text \<open>A second frame of the same video, and the example screen paused on it.\<close>

definition held_frame :: AVFrame where
  "held_frame = \<lparr>frame_width = 1080, frame_height = 1920, frame_data = 2\<rparr>"

definition paused_screen :: sc_screen where
  "paused_screen = example_screen\<lparr>paused := True, resume_frame := Some held_frame\<rparr>"

section \<open>Properties of the geometry engine\<close>

lemma c_div_pos: "0 < b \<Longrightarrow> c_div a b = Inr (a div b)"
  by (simp add: c_div_def)

lemma c_div_zero: "c_div a 0 = Inl DivisionByZero"
  by (simp add: c_div_def)

lemma c_sdiv_nonneg: "0 \<le> a \<Longrightarrow> 0 < b \<Longrightarrow> c_sdiv a b = Inr (a div b)"
  by (simp add: c_sdiv_def)

lemma c_sdiv_returns: "b \<noteq> 0 \<Longrightarrow> \<exists>q. c_sdiv a b = Inr q"
  by (simp add: c_sdiv_def)

lemma s32_id: "- 2147483648 \<le> k \<Longrightarrow> k < 2147483648 \<Longrightarrow> s32 k = k"
  by (simp add: s32_def)

lemma s32_nonneg: "0 \<le> k \<Longrightarrow> k < 2147483648 \<Longrightarrow> s32 k = k"
  by (simp add: s32_def)

lemma uint_16_bounds: "0 \<le> uint (a :: 16 word) \<and> uint a < 65536"
  using uint_bounded [of a] by simp

lemma uint_16_pos: "0 < (a :: 16 word) \<Longrightarrow> 0 < uint a"
  by (simp add: word_less_def)

lemma uint_word_of_int_16: "0 \<le> q \<Longrightarrow> q < 65536 \<Longrightarrow> uint (word_of_int q :: 16 word) = q"
  by (simp add: uint_word_of_int)

lemma int_mul_in_range: "uint a * uint b < 2147483648 \<Longrightarrow> int_mul a b = uint a * uint b"
  by (simp add: int_mul_def s32_nonneg)

lemma is_optimal_size_returns:
  assumes "width C \<noteq> 0" and "height C \<noteq> 0"
  shows "\<exists>b. is_optimal_size W C = Inr b"
proof -
  obtain q1 where q1: "c_sdiv (int_mul (width W) (height C)) (uint (width C)) = Inr q1"
    using c_sdiv_returns [of "uint (width C)"] assms(1) by (auto simp add: uint_0_iff)
  obtain q2 where q2: "c_sdiv (int_mul (height W) (width C)) (uint (height C)) = Inr q2"
    using c_sdiv_returns [of "uint (height C)"] assms(2) by (auto simp add: uint_0_iff)
  show ?thesis by (auto simp add: is_optimal_size_def q1 q2)
qed

lemma get_optimal_size_returns: "\<exists>r. get_optimal_size lib S C b = Inr r"
proof (cases "width C = 0 \<or> height C = 0")
  case True
  then show ?thesis by (auto simp add: get_optimal_size_def)
next
  case False
  then have nz: "width C \<noteq> 0" "height C \<noteq> 0" by simp_all
  define W where "W = (if b
               then (case get_preferred_display_bounds lib of
                       None \<Rightarrow> S
                     | Some display_size \<Rightarrow>
                         \<lparr>width = min (width S) (width display_size),
                          height = min (height S) (height display_size)\<rparr>)
               else S)"
  obtain o1 where o1: "is_optimal_size W C = Inr o1"
    using is_optimal_size_returns [OF nz] by blast
  obtain q1 where q1: "c_sdiv (int_mul (height C) (width W)) (uint (width C)) = Inr q1"
    using c_sdiv_returns [of "uint (width C)"] nz by (auto simp add: uint_0_iff)
  obtain q2 where q2: "c_sdiv (int_mul (width C) (height W)) (uint (height C)) = Inr q2"
    using c_sdiv_returns [of "uint (height C)"] nz by (auto simp add: uint_0_iff)
  show ?thesis
    using nz o1 q1 q2 unfolding get_optimal_size_def Let_def W_def [symmetric]
    by (cases o1) simp_all
qed

text \<open>
  The two quotients of the aspect ratio stay below the dimension they replace, on the
  side of the comparison where the code computes them.
\<close>

lemma keep_width_quotient_le:
  fixes cw ch sw sh :: int
  assumes "0 < cw" and "ch * sw < cw * sh"
  shows "ch * sw div cw \<le> sh"
proof -
  have "ch * sw div cw \<le> cw * sh div cw"
    using assms by (intro zdiv_mono1) simp_all
  with assms(1) show ?thesis by simp
qed

lemma keep_height_quotient_le:
  fixes cw ch sw sh :: int
  assumes "0 < ch" and "\<not> ch * sw < cw * sh"
  shows "cw * sh div ch \<le> sw"
proof -
  have "cw * sh div ch \<le> ch * sw div ch"
    using assms by (intro zdiv_mono1) simp_all
  with assms(1) show ?thesis by simp
qed

text \<open>
  Where neither product of a dimension of the window by a dimension of the content
  exceeds \<^verbatim>\<open>INT_MAX\<close>, \<^verbatim>\<open>is_optimal_size\<close> is the disjunction of the two equalities
  between a dimension of the window and the floor of the quotient that recomputes it
  from the other.
\<close>

lemma is_optimal_size_in_range:
  assumes "0 < width C" and "0 < height C"
    and "uint (width W) * uint (height C) < 2147483648"
    and "uint (height W) * uint (width C) < 2147483648"
  shows "is_optimal_size W C =
           Inr (uint (height W) = uint (width W) * uint (height C) div uint (width C)
                \<or> uint (width W) = uint (height W) * uint (width C) div uint (height C))"
  using assms uint_16_pos [OF assms(1)] uint_16_pos [OF assms(2)]
  by (simp add: is_optimal_size_def int_mul_in_range c_sdiv_nonneg)

text \<open>
  C7. \<^verbatim>\<open>is_optimal_size\<close> returns true for a window of 800x450 and a content of
  1920x1080. For a window and a content of 50000x50000 the height of the window is the
  floor of \<open>width * content height / content width\<close>, yet \<^verbatim>\<open>is_optimal_size\<close> returns
  false: the product 50000 * 50000 does not fit the type \<^verbatim>\<open>int\<close> in which it is
  computed.
\<close>

theorem is_optimal_size_overflow:
  "is_optimal_size \<lparr>width = 800, height = 450\<rparr> \<lparr>width = 1920, height = 1080\<rparr> = Inr True
   \<and> uint (50000 :: 16 word) = uint (50000 :: 16 word) * uint (50000 :: 16 word)
                                  div uint (50000 :: 16 word)
   \<and> is_optimal_size \<lparr>width = 50000, height = 50000\<rparr> \<lparr>width = 50000, height = 50000\<rparr>
       = Inr False"
  by (simp add: is_optimal_size_def int_mul_def s32_def c_sdiv_def)

text \<open>
  Where neither product exceeds \<^verbatim>\<open>INT_MAX\<close>, \<^verbatim>\<open>get_optimal_size\<close> without the clamping
  to the display bounds returns a size, and neither its width nor its height exceeds
  that of the current size.
\<close>

lemma get_optimal_size_in_range:
  assumes "uint (width S) * uint (height C) < 2147483648"
    and "uint (height S) * uint (width C) < 2147483648"
  shows "\<exists>r. get_optimal_size lib S C False = Inr r
       \<and> width r \<le> width S \<and> height r \<le> height S"
proof (cases "width C = 0 \<or> height C = 0")
  case True
  then show ?thesis by (auto simp add: get_optimal_size_def)
next
  case False
  then have pos: "0 < width C" "0 < height C"
    by (simp_all add: word_greater_zero_iff)
  note upos = uint_16_pos [OF pos(1)] uint_16_pos [OF pos(2)]
  note opt = is_optimal_size_in_range [OF pos assms]
  have m1: "int_mul (width C) (height S) = uint (width C) * uint (height S)"
    and m2: "int_mul (height C) (width S) = uint (height C) * uint (width S)"
    using assms by (simp_all add: int_mul_in_range mult.commute)
  show ?thesis
  proof (cases "uint (height C) * uint (width S) < uint (width C) * uint (height S)")
    case True
    let ?h = "uint (height C) * uint (width S) div uint (width C)"
    have le: "?h \<le> uint (height S)"
      using True upos by (simp add: keep_width_quotient_le)
    moreover have nonneg: "0 \<le> ?h"
      using upos by (simp add: pos_imp_zdiv_nonneg_iff)
    ultimately have "uint (word_of_int ?h :: 16 word) = ?h"
      using uint_16_bounds [of "height S"] by (intro uint_word_of_int_16) simp_all
    with le have "(word_of_int ?h :: 16 word) \<le> height S"
      by (simp add: word_le_def)
    then show ?thesis using False True opt m1 m2 upos nonneg
      by (auto simp add: get_optimal_size_def c_sdiv_nonneg Let_def split: bool.splits)
  next
    case False
    let ?w = "uint (width C) * uint (height S) div uint (height C)"
    have le: "?w \<le> uint (width S)"
      using False upos by (simp add: keep_height_quotient_le)
    moreover have nonneg: "0 \<le> ?w"
      using upos by (simp add: pos_imp_zdiv_nonneg_iff)
    ultimately have "uint (word_of_int ?w :: 16 word) = ?w"
      using uint_16_bounds [of "width S"] by (intro uint_word_of_int_16) simp_all
    with le have "(word_of_int ?w :: 16 word) \<le> width S"
      by (simp add: word_le_def)
    then show ?thesis using \<open>\<not> (width C = 0 \<or> height C = 0)\<close> False opt m1 m2 upos nonneg
      by (auto simp add: get_optimal_size_def c_sdiv_nonneg Let_def split: bool.splits)
  qed
qed

text \<open>
  C2. For the current size 1x32769 and the content size 65535x1, \<^verbatim>\<open>get_optimal_size\<close>
  without the clamping to the display bounds returns a size of 32767x32769, whose
  width exceeds that of the current size: the product 65535 * 32769 does not fit the
  type \<^verbatim>\<open>int\<close> in which it is computed.
\<close>

theorem get_optimal_size_overflow:
  "get_optimal_size example_platform \<lparr>width = 1, height = 32769\<rparr>
     \<lparr>width = 65535, height = 1\<rparr> False = Inr \<lparr>width = 32767, height = 32769\<rparr>
   \<and> \<not> width \<lparr>width = 32767, height = 32769 :: 16 word\<rparr>
         \<le> width \<lparr>width = 1, height = 32769 :: 16 word\<rparr>"
  by (simp add: get_optimal_size_def is_optimal_size_def int_mul_def s32_def c_sdiv_def
        Let_def word_le_def)

text \<open>
  C10. \<^verbatim>\<open>get_initial_optimal_size\<close> has no guard against a zero content dimension: with
  only a requested height it divides by the content height, with only a requested width
  by the content width, and a zero divisor traps; \<^verbatim>\<open>get_optimal_size\<close> has the guard and
  returns the current size. When both content dimensions are positive,
  \<^verbatim>\<open>get_initial_optimal_size\<close> returns a size, so that no division by zero is reached;
  and the dimensions that \<^verbatim>\<open>sc_screen_frame_sink_open\<close> accepts are positive.
\<close>

theorem get_initial_optimal_size_division:
  "(req_h \<noteq> 0 \<longrightarrow>
      get_initial_optimal_size lib \<lparr>width = cw, height = 0\<rparr> 0 req_h = Inl DivisionByZero)
   \<and> (req_w \<noteq> 0 \<longrightarrow>
      get_initial_optimal_size lib \<lparr>width = 0, height = ch\<rparr> req_w 0 = Inl DivisionByZero)
   \<and> (width C = 0 \<or> height C = 0 \<longrightarrow> get_optimal_size lib S C b = Inr S)
   \<and> (0 < width C \<and> 0 < height C \<longrightarrow>
        (\<exists>r. get_initial_optimal_size lib C req_w req_h = Inr r))
   \<and> (sc_screen_frame_sink_open screen ctx = Inr (True, screen') \<longrightarrow>
        0 < ctx_width ctx \<and> 0 < ctx_height ctx)"
proof (intro conjI impI)
  assume "req_h \<noteq> 0"
  then show "get_initial_optimal_size lib \<lparr>width = cw, height = 0\<rparr> 0 req_h = Inl DivisionByZero"
    by (simp add: get_initial_optimal_size_def c_div_zero)
next
  assume "req_w \<noteq> 0"
  then show "get_initial_optimal_size lib \<lparr>width = 0, height = ch\<rparr> req_w 0 = Inl DivisionByZero"
    by (simp add: get_initial_optimal_size_def c_div_zero)
next
  assume "width C = 0 \<or> height C = 0"
  then show "get_optimal_size lib S C b = Inr S"
    by (auto simp add: get_optimal_size_def)
next
  assume pos: "0 < width C \<and> 0 < height C"
  then have upos: "0 < unat (width C)" "0 < unat (height C)"
    by (simp_all add: unat_gt_0 word_greater_zero_iff)
  show "\<exists>r. get_initial_optimal_size lib C req_w req_h = Inr r"
  proof (cases "req_w = 0 \<and> req_h = 0")
    case True
    then show ?thesis
      using get_optimal_size_returns [of lib C C True]
      by (simp add: get_initial_optimal_size_def)
  next
    case False
    then show ?thesis using upos
      by (simp add: get_initial_optimal_size_def c_div_pos)
  qed
next
  assume "sc_screen_frame_sink_open screen ctx = Inr (True, screen')"
  then show "0 < ctx_width ctx" "0 < ctx_height ctx"
    by (auto simp add: sc_screen_frame_sink_open_def split: if_splits)
qed

theorem get_initial_optimal_size_division_witness:
  "get_initial_optimal_size example_platform \<lparr>width = 1080, height = 0\<rparr> 0 960
     = Inl DivisionByZero
   \<and> get_initial_optimal_size example_platform \<lparr>width = 0, height = 1920\<rparr> 540 0
     = Inl DivisionByZero
   \<and> get_optimal_size example_platform \<lparr>width = 256, height = 256\<rparr>
        \<lparr>width = 0, height = 1920\<rparr> True = Inr \<lparr>width = 256, height = 256\<rparr>
   \<and> (\<exists>r. get_initial_optimal_size example_platform \<lparr>width = 1080, height = 1920\<rparr> 0 960
          = Inr r)
   \<and> sc_screen_frame_sink_open example_screen
        \<lparr>pix_fmt = AV_PIX_FMT_YUV420P, ctx_width = 1080, ctx_height = 1920\<rparr>
       = Inr (True, example_screen\<lparr>sc_open := True\<rparr>)"
  using get_initial_optimal_size_division
          [where req_h = 960 and req_w = 540 and lib = example_platform and cw = 1080
             and ch = 1920 and C = "\<lparr>width = 0, height = 1920\<rparr>"
             and S = "\<lparr>width = 256, height = 256\<rparr>" and b = True]
        get_initial_optimal_size_division
          [where req_h = 960 and req_w = 0 and lib = example_platform
             and C = "\<lparr>width = 1080, height = 1920\<rparr>"]
  by (simp add: sc_screen_frame_sink_open_def)

text \<open>
  Where neither product of a dimension of the render output by a dimension of the
  content exceeds \<^verbatim>\<open>INT_MAX\<close>, and the content has positive dimensions,
  \<^verbatim>\<open>sc_screen_update_content_rect\<close> returns, changes the content rectangle only, and the
  rectangle lies inside the render output. When the render output is optimal for the
  content the rectangle is the whole output. In every case the width and the height of
  the rectangle are the size that \<^verbatim>\<open>get_optimal_size\<close> computes for the render output
  without the display bounds, and each offset is the floor of half the difference
  between the output and the rectangle on its axis.
\<close>

lemma content_rect_in_range:
  assumes "video screen"
    and "0 < width (content_size screen)" and "0 < height (content_size screen)"
    and "sc_sdl_get_render_output_size lib screen = Inr R"
    and "uint (width R) * uint (height (content_size screen)) < 2147483648"
    and "uint (height R) * uint (width (content_size screen)) < 2147483648"
  shows "\<exists>r. sc_screen_update_content_rect lib screen = Inr (screen\<lparr>rect := r\<rparr>)
     \<and> 0 \<le> rect_x r \<and> 0 \<le> rect_y r \<and> 0 \<le> rect_w r \<and> 0 \<le> rect_h r
     \<and> rect_x r + rect_w r \<le> uint (width R) \<and> rect_y r + rect_h r \<le> uint (height R)
     \<and> (is_optimal_size R (content_size screen) = Inr True \<longrightarrow>
          r = \<lparr>rect_x = 0, rect_y = 0, rect_w = uint (width R), rect_h = uint (height R)\<rparr>)
     \<and> get_optimal_size lib R (content_size screen) False
          = Inr \<lparr>width = word_of_int (rect_w r), height = word_of_int (rect_h r)\<rparr>
     \<and> rect_x r = (uint (width R) - rect_w r) div 2
     \<and> rect_y r = (uint (height R) - rect_h r) div 2"
proof -
  let ?C = "content_size screen"
  let ?cw = "uint (width ?C)" and ?ch = "uint (height ?C)"
  let ?rw = "uint (width R)" and ?rh = "uint (height R)"
  note upos = uint_16_pos [OF assms(2)] uint_16_pos [OF assms(3)]
  have nz: "width ?C \<noteq> 0" "height ?C \<noteq> 0"
    using assms(2,3) by (simp_all add: word_greater_zero_iff)
  note opt = is_optimal_size_in_range [OF assms(2,3,5,6)]
  have m1: "int_mul (width ?C) (height R) = ?cw * ?rh"
    and m2: "int_mul (height ?C) (width R) = ?ch * ?rw"
    and m3: "int_mul (width R) (height ?C) = ?ch * ?rw"
    and m4: "int_mul (height R) (width ?C) = ?cw * ?rh"
    using assms(5,6) by (simp_all add: int_mul_in_range mult.commute)
  have eta: "\<lparr>width = width R, height = height R\<rparr> = R" by simp
  show ?thesis
  proof (cases "?rh = ?rw * ?ch div ?cw \<or> ?rw = ?rh * ?cw div ?ch")
    case True
    then show ?thesis using assms(1,4) opt nz eta
      by (intro exI [of _ "\<lparr>rect_x = 0, rect_y = 0, rect_w = ?rw, rect_h = ?rh\<rparr>"])
         (simp add: sc_screen_update_content_rect_def get_optimal_size_def)
  next
    case nopt: False
    show ?thesis
    proof (cases "?ch * ?rw < ?cw * ?rh")
      case True
      let ?h = "?ch * ?rw div ?cw"
      let ?r = "\<lparr>rect_x = 0, rect_y = (?rh - ?h) div 2, rect_w = ?rw, rect_h = ?h\<rparr>"
      have le: "?h \<le> ?rh"
        using True upos by (simp add: keep_width_quotient_le)
      have nonneg: "0 \<le> ?h"
        using upos by (simp add: pos_imp_zdiv_nonneg_iff)
      have "s32 (?rh - ?h) = ?rh - ?h"
        using le nonneg uint_16_bounds [of "height R"] by (intro s32_nonneg) simp_all
      moreover have "c_sdiv (?rh - ?h) 2 = Inr ((?rh - ?h) div 2)"
        using le by (intro c_sdiv_nonneg) simp_all
      ultimately have run: "sc_screen_update_content_rect lib screen = Inr (screen\<lparr>rect := ?r\<rparr>)"
        using assms(1,4) opt nopt True upos nonneg m1 m2 m3
        by (simp add: sc_screen_update_content_rect_def c_sdiv_nonneg Let_def)
      have size: "get_optimal_size lib R ?C False
                    = Inr \<lparr>width = word_of_int ?rw, height = word_of_int ?h\<rparr>"
        using opt nopt True upos nonneg nz m1 m2
        by (simp add: get_optimal_size_def c_sdiv_nonneg Let_def)
      show ?thesis
        using run size opt nopt le nonneg by (intro exI [of _ ?r]) simp
    next
      case False
      let ?w = "?cw * ?rh div ?ch"
      let ?r = "\<lparr>rect_x = (?rw - ?w) div 2, rect_y = 0, rect_w = ?w, rect_h = ?rh\<rparr>"
      have le: "?w \<le> ?rw"
        using False upos by (simp add: keep_height_quotient_le)
      have nonneg: "0 \<le> ?w"
        using upos by (simp add: pos_imp_zdiv_nonneg_iff)
      have "s32 (?rw - ?w) = ?rw - ?w"
        using le nonneg uint_16_bounds [of "width R"] by (intro s32_nonneg) simp_all
      moreover have "c_sdiv (?rw - ?w) 2 = Inr ((?rw - ?w) div 2)"
        using le by (intro c_sdiv_nonneg) simp_all
      ultimately have run: "sc_screen_update_content_rect lib screen = Inr (screen\<lparr>rect := ?r\<rparr>)"
        using assms(1,4) opt nopt False upos nonneg m1 m2 m4
        by (simp add: sc_screen_update_content_rect_def c_sdiv_nonneg Let_def)
      have size: "get_optimal_size lib R ?C False
                    = Inr \<lparr>width = word_of_int ?w, height = word_of_int ?rh\<rparr>"
        using opt nopt False upos nonneg nz m1 m2
        by (simp add: get_optimal_size_def c_sdiv_nonneg Let_def)
      show ?thesis
        using run size opt nopt le nonneg by (intro exI [of _ ?r]) simp
    qed
  qed
qed

text \<open>
  C3. For a render output of 60000x40000 and a content of 40000x60000,
  \<^verbatim>\<open>sc_screen_update_content_rect\<close> sets a content rectangle of width 60000 and of
  height -17374 at the ordinate 28687, which is not inside the render output: the
  product 60000 * 60000 does not fit the type \<^verbatim>\<open>int\<close> in which it is computed.
\<close>

theorem content_rect_overflow:
  "sc_sdl_get_render_output_size example_platform
     (example_screen\<lparr>content_size := \<lparr>width = 40000, height = 60000\<rparr>,
        sdl_calls := [SetWindowSize \<lparr>width = 60000, height = 40000\<rparr>]\<rparr>)
     = Inr \<lparr>width = 60000, height = 40000\<rparr>
   \<and> sc_screen_update_content_rect example_platform
     (example_screen\<lparr>content_size := \<lparr>width = 40000, height = 60000\<rparr>,
        sdl_calls := [SetWindowSize \<lparr>width = 60000, height = 40000\<rparr>]\<rparr>)
     = Inr (example_screen\<lparr>content_size := \<lparr>width = 40000, height = 60000\<rparr>,
        sdl_calls := [SetWindowSize \<lparr>width = 60000, height = 40000\<rparr>],
        rect := \<lparr>rect_x = 0, rect_y = 28687, rect_w = 60000, rect_h = - 17374\<rparr>\<rparr>)"
  by (simp add: sc_screen_update_content_rect_def sc_sdl_get_render_output_size_def
      example_screen_def example_platform_def
      is_optimal_size_def int_mul_def s32_def c_sdiv_def Let_def)

section \<open>Properties of the coordinate mapper\<close>

lemma quotient_times_divisor:
  fixes a b :: int
  assumes "0 < b"
  shows "a div b * b \<le> a" and "a < a div b * b + b"
proof -
  have "a = a div b * b + a mod b" by simp
  moreover have "0 \<le> a mod b" and "a mod b < b"
    using assms by simp_all
  ultimately show "a div b * b \<le> a" and "a < a div b * b + b"
    by linarith+
qed

lemma times_less_cancel:
  fixes a b w :: int
  shows "0 < w \<Longrightarrow> a * w < b * w \<Longrightarrow> a < b"
  by (simp add: mult_less_cancel_right)

text \<open>
  The coordinates that the program scales to \<open>d * w div r\<close> start no later than \<open>d\<close> and
  end no earlier; they are at most three when the rectangle is at most three times the
  content, and \<open>d\<close> alone when the rectangle is not larger than the content.
\<close>

lemma preimage_holds:
  fixes d r w :: int
  assumes "0 < r" and "0 < w"
  shows "preimage_first (d * w div r) r w \<le> d" and "d \<le> preimage_last (d * w div r) r w"
proof -
  let ?q = "d * w div r"
  let ?F = "(?q * r + w - 1) div w" and ?L = "((?q + 1) * r + w - 1) div w"
  have q1: "?q * r \<le> d * w"
    using assms(1) by (rule quotient_times_divisor(1))
  have q2: "d * w < ?q * r + r"
    using assms(1) by (rule quotient_times_divisor(2))
  have "?F * w \<le> ?q * r + w - 1"
    using assms(2) by (rule quotient_times_divisor(1))
  with q1 have "?F * w < (d + 1) * w"
    by (simp add: algebra_simps)
  then have "?F < d + 1"
    using assms(2) by (rule times_less_cancel [rotated])
  then show "preimage_first ?q r w \<le> d"
    by (simp add: preimage_first_def ceil_div_def)
  have "(?q + 1) * r + w - 1 < ?L * w + w"
    using assms(2) by (rule quotient_times_divisor(2))
  with q2 have "d * w < ?L * w"
    by (simp add: algebra_simps)
  then have "d < ?L"
    using assms(2) by (rule times_less_cancel [rotated])
  then show "d \<le> preimage_last ?q r w"
    by (simp add: preimage_last_def ceil_div_def)
qed

lemma preimage_extent:
  fixes q r w k :: int
  assumes "0 < w" and "r \<le> k * w"
  shows "preimage_last q r w - preimage_first q r w < k"
proof -
  let ?F = "(q * r + w - 1) div w" and ?L = "((q + 1) * r + w - 1) div w"
  have "?L * w \<le> (q + 1) * r + w - 1"
    using assms(1) by (rule quotient_times_divisor(1))
  moreover have "q * r + w - 1 < ?F * w + w"
    using assms(1) by (rule quotient_times_divisor(2))
  ultimately have "?L * w < (?F + k + 1) * w"
    using assms(2) by (simp add: algebra_simps)
  then have "?L < ?F + k + 1"
    using assms(1) by (rule times_less_cancel [rotated])
  then show ?thesis
    by (simp add: preimage_first_def preimage_last_def ceil_div_def)
qed

lemma scale_back_exact:
  fixes d r w :: int
  assumes "0 < r" and "r \<le> w"
  shows "scale_back (d * w div r) r w = d"
proof -
  have w: "0 < w" using assms by simp
  have "preimage_last (d * w div r) r w - preimage_first (d * w div r) r w < 1"
    using assms(2) by (intro preimage_extent [OF w]) simp
  with preimage_holds [OF assms(1) w, of d] show ?thesis
    by (simp add: scale_back_def)
qed

lemma scale_back_near:
  fixes d r w :: int
  assumes "0 < r" and "0 < w" and "r \<le> 3 * w"
  shows "\<bar>scale_back (d * w div r) r w - d\<bar> \<le> 1"
proof -
  have "preimage_last (d * w div r) r w - preimage_first (d * w div r) r w < 3"
    using assms(3) by (intro preimage_extent [OF assms(2)])
  with preimage_holds [OF assms(1,2), of d] show ?thesis
    by (simp add: scale_back_def)
qed

text \<open>
  The scaling of a coordinate of the content rectangle stays within the widths in
  which the program computes it.
\<close>

lemma scale_in_range:
  fixes d r :: int and w :: "16 word"
  assumes "0 \<le> d" and "d < r" and "r \<le> 196605" and "0 < uint w"
  shows "c_sdiv (s64 (s32 d * uint w)) r = Inr (d * uint w div r)"
    and "s32 (d * uint w div r) = d * uint w div r"
    and "0 \<le> d * uint w div r" and "d * uint w div r < uint w"
    and "s32 (uint w - d * uint w div r) = uint w - d * uint w div r"
proof -
  let ?w = "uint w"
  have wb: "?w < 65536" using uint_16_bounds [of w] by simp
  have r: "0 < r" using assms(1,2) by simp
  have d32: "s32 d = d"
    using assms(1,2,3) by (intro s32_nonneg) simp_all
  have n: "0 \<le> d * ?w" using assms(1) by simp
  have "d * ?w \<le> 196605 * 65536"
    using assms(1,2,3) wb by (intro mult_mono) simp_all
  then have d64: "s64 (d * ?w) = d * ?w"
    using n by (simp add: s64_def)
  show "c_sdiv (s64 (s32 d * ?w)) r = Inr (d * ?w div r)"
    using n r by (simp add: d32 d64 c_sdiv_nonneg)
  show q0: "0 \<le> d * ?w div r"
    using n r by (simp add: pos_imp_zdiv_nonneg_iff)
  have "d * ?w div r * r \<le> d * ?w"
    using r by (rule quotient_times_divisor(1))
  also have "d * ?w < ?w * r"
    using assms(2,4) by (simp add: mult.commute)
  finally have "d * ?w div r * r < ?w * r" .
  then show qw: "d * ?w div r < ?w"
    using r by (rule times_less_cancel [rotated])
  show "s32 (d * ?w div r) = d * ?w div r"
    using q0 qw wb by (intro s32_nonneg) simp_all
  show "s32 (?w - d * ?w div r) = ?w - d * ?w div r"
    using q0 qw wb by (intro s32_nonneg) simp_all
qed

lemma inverse_orientation_transform_undoes:
  "inverse_orientation_transform ori w h
     (case ori of
        SC_ORIENTATION_0 \<Rightarrow> \<lparr>point_x = x1, point_y = y1\<rparr>
      | SC_ORIENTATION_90 \<Rightarrow> \<lparr>point_x = y1, point_y = w - x1\<rparr>
      | SC_ORIENTATION_180 \<Rightarrow> \<lparr>point_x = w - x1, point_y = h - y1\<rparr>
      | SC_ORIENTATION_270 \<Rightarrow> \<lparr>point_x = h - y1, point_y = x1\<rparr>
      | SC_ORIENTATION_FLIP_0 \<Rightarrow> \<lparr>point_x = w - x1, point_y = y1\<rparr>
      | SC_ORIENTATION_FLIP_90 \<Rightarrow> \<lparr>point_x = h - y1, point_y = w - x1\<rparr>
      | SC_ORIENTATION_FLIP_180 \<Rightarrow> \<lparr>point_x = x1, point_y = h - y1\<rparr>
      | SC_ORIENTATION_FLIP_270 \<Rightarrow> \<lparr>point_x = y1, point_y = x1\<rparr>)
   = \<lparr>point_x = x1, point_y = y1\<rparr>"
  by (cases ori) simp_all

text \<open>
  C4, as the program has it. The scaling of
  \<^verbatim>\<open>sc_screen_convert_drawable_to_frame_coords\<close> maps several points of the content
  rectangle to one point of the frame as soon as the rectangle is larger than the
  content, so that no way back from the frame recovers each of them. At the identity
  orientation and with a content of 1080x1920: in a rectangle of 4320x7680 the points
  (4316, 0) and (4319, 0), which are 3 apart, both map to (1079, 0); in a rectangle of
  3241x1920 the points (0, 0) and (3, 0) both map to (0, 0); and in a rectangle of
  1081x1920 the points (0, 0) and (1, 0) both map to (0, 0).
\<close>

theorem drawable_frame_round_trip_counterexample:
  "orientation example_screen = SC_ORIENTATION_0
   \<and> content_size example_screen = \<lparr>width = 1080, height = 1920\<rparr>
   \<and> sc_screen_convert_drawable_to_frame_coords
        (example_screen\<lparr>rect := \<lparr>rect_x = 0, rect_y = 0, rect_w = 4320, rect_h = 7680\<rparr>\<rparr>)
        4316 0 = Inr \<lparr>point_x = 1079, point_y = 0\<rparr>
   \<and> sc_screen_convert_drawable_to_frame_coords
        (example_screen\<lparr>rect := \<lparr>rect_x = 0, rect_y = 0, rect_w = 4320, rect_h = 7680\<rparr>\<rparr>)
        4319 0 = Inr \<lparr>point_x = 1079, point_y = 0\<rparr>
   \<and> sc_screen_convert_drawable_to_frame_coords
        (example_screen\<lparr>rect := \<lparr>rect_x = 0, rect_y = 0, rect_w = 3241, rect_h = 1920\<rparr>\<rparr>)
        0 0 = Inr \<lparr>point_x = 0, point_y = 0\<rparr>
   \<and> sc_screen_convert_drawable_to_frame_coords
        (example_screen\<lparr>rect := \<lparr>rect_x = 0, rect_y = 0, rect_w = 3241, rect_h = 1920\<rparr>\<rparr>)
        3 0 = Inr \<lparr>point_x = 0, point_y = 0\<rparr>
   \<and> sc_screen_convert_drawable_to_frame_coords
        (example_screen\<lparr>rect := \<lparr>rect_x = 0, rect_y = 0, rect_w = 1081, rect_h = 1920\<rparr>\<rparr>)
        0 0 = Inr \<lparr>point_x = 0, point_y = 0\<rparr>
   \<and> sc_screen_convert_drawable_to_frame_coords
        (example_screen\<lparr>rect := \<lparr>rect_x = 0, rect_y = 0, rect_w = 1081, rect_h = 1920\<rparr>\<rparr>)
        1 0 = Inr \<lparr>point_x = 0, point_y = 0\<rparr>"
  by (simp add: sc_screen_convert_drawable_to_frame_coords_def example_screen_def
        c_sdiv_def s32_def s64_def)

text \<open>
  C4, amended. For a content of positive dimensions, a point of a content rectangle
  whose width and height are at most three times those of the content, and each of
  the eight orientations: the conversion returns a point of the frame; the inverse
  orientation transform gives back the scaled point exactly; and the way back to the
  drawable recovers each coordinate of the original point within 1, and exactly on an
  axis where the rectangle is not larger than the content.
\<close>

theorem drawable_frame_round_trip:
  assumes "video screen"
    and "0 < width (content_size screen)" and "0 < height (content_size screen)"
    and "rect_w (rect screen) \<le> 3 * uint (width (content_size screen))"
    and "rect_h (rect screen) \<le> 3 * uint (height (content_size screen))"
    and "rect_x (rect screen) \<le> x" and "x < rect_x (rect screen) + rect_w (rect screen)"
    and "rect_y (rect screen) \<le> y" and "y < rect_y (rect screen) + rect_h (rect screen)"
  shows "\<exists>p. sc_screen_convert_drawable_to_frame_coords screen x y = Inr p
     \<and> inverse_orientation_transform (orientation screen)
           (uint (width (content_size screen))) (uint (height (content_size screen))) p
         = \<lparr>point_x = (x - rect_x (rect screen)) * uint (width (content_size screen))
                        div rect_w (rect screen),
            point_y = (y - rect_y (rect screen)) * uint (height (content_size screen))
                        div rect_h (rect screen)\<rparr>
     \<and> \<bar>point_x (frame_to_drawable_coords screen p) - x\<bar> \<le> 1
     \<and> \<bar>point_y (frame_to_drawable_coords screen p) - y\<bar> \<le> 1
     \<and> (rect_w (rect screen) \<le> uint (width (content_size screen))
          \<longrightarrow> point_x (frame_to_drawable_coords screen p) = x)
     \<and> (rect_h (rect screen) \<le> uint (height (content_size screen))
          \<longrightarrow> point_y (frame_to_drawable_coords screen p) = y)"
proof -
  let ?w = "uint (width (content_size screen))" and ?h = "uint (height (content_size screen))"
  let ?rx = "rect_x (rect screen)" and ?ry = "rect_y (rect screen)"
  let ?rw = "rect_w (rect screen)" and ?rh = "rect_h (rect screen)"
  let ?x1 = "(x - ?rx) * ?w div ?rw" and ?y1 = "(y - ?ry) * ?h div ?rh"
  let ?p = "case orientation screen of
        SC_ORIENTATION_0 \<Rightarrow> \<lparr>point_x = ?x1, point_y = ?y1\<rparr>
      | SC_ORIENTATION_90 \<Rightarrow> \<lparr>point_x = ?y1, point_y = ?w - ?x1\<rparr>
      | SC_ORIENTATION_180 \<Rightarrow> \<lparr>point_x = ?w - ?x1, point_y = ?h - ?y1\<rparr>
      | SC_ORIENTATION_270 \<Rightarrow> \<lparr>point_x = ?h - ?y1, point_y = ?x1\<rparr>
      | SC_ORIENTATION_FLIP_0 \<Rightarrow> \<lparr>point_x = ?w - ?x1, point_y = ?y1\<rparr>
      | SC_ORIENTATION_FLIP_90 \<Rightarrow> \<lparr>point_x = ?h - ?y1, point_y = ?w - ?x1\<rparr>
      | SC_ORIENTATION_FLIP_180 \<Rightarrow> \<lparr>point_x = ?x1, point_y = ?h - ?y1\<rparr>
      | SC_ORIENTATION_FLIP_270 \<Rightarrow> \<lparr>point_x = ?y1, point_y = ?x1\<rparr>"
  have wpos: "0 < ?w" and hpos: "0 < ?h"
    using assms(2,3) by (simp_all add: uint_16_pos)
  have dx: "0 \<le> x - ?rx" "x - ?rx < ?rw" and dy: "0 \<le> y - ?ry" "y - ?ry < ?rh"
    using assms(6,7,8,9) by simp_all
  have rpos: "0 < ?rw" "0 < ?rh"
    using dx dy by simp_all
  have rb: "?rw \<le> 196605" "?rh \<le> 196605"
    using assms(4,5) uint_16_bounds [of "width (content_size screen)"]
      uint_16_bounds [of "height (content_size screen)"]
    by simp_all
  note sx = scale_in_range [OF dx rb(1) wpos]
  note sy = scale_in_range [OF dy rb(2) hpos]
  have "sc_screen_convert_drawable_to_frame_coords screen x y = Inr ?p"
    using assms(1) rpos sx(1,2,5) sy(1,2,5)
    by (cases "orientation screen")
       (simp_all add: sc_screen_convert_drawable_to_frame_coords_def Let_def)
  moreover have "inverse_orientation_transform (orientation screen) ?w ?h ?p
               = \<lparr>point_x = ?x1, point_y = ?y1\<rparr>"
    by (rule inverse_orientation_transform_undoes)
  ultimately obtain p where
    fwd: "sc_screen_convert_drawable_to_frame_coords screen x y = Inr p"
    and inv: "inverse_orientation_transform (orientation screen) ?w ?h p
               = \<lparr>point_x = ?x1, point_y = ?y1\<rparr>"
    by blast
  have bwd: "point_x (frame_to_drawable_coords screen p) = ?rx + scale_back ?x1 ?rw ?w"
    "point_y (frame_to_drawable_coords screen p) = ?ry + scale_back ?y1 ?rh ?h"
    by (simp_all add: frame_to_drawable_coords_def inv Let_def)
  have "\<bar>scale_back ?x1 ?rw ?w - (x - ?rx)\<bar> \<le> 1"
    using rpos(1) wpos assms(4) by (rule scale_back_near)
  then have nx: "\<bar>point_x (frame_to_drawable_coords screen p) - x\<bar> \<le> 1"
    unfolding bwd by simp
  have "\<bar>scale_back ?y1 ?rh ?h - (y - ?ry)\<bar> \<le> 1"
    using rpos(2) hpos assms(5) by (rule scale_back_near)
  then have ny: "\<bar>point_y (frame_to_drawable_coords screen p) - y\<bar> \<le> 1"
    unfolding bwd by simp
  have ex: "point_x (frame_to_drawable_coords screen p) = x" if "?rw \<le> ?w"
    unfolding bwd using rpos(1) that by (simp add: scale_back_exact)
  have ey: "point_y (frame_to_drawable_coords screen p) = y" if "?rh \<le> ?h"
    unfolding bwd using rpos(2) that by (simp add: scale_back_exact)
  from fwd inv nx ny ex ey show ?thesis
    by (intro exI [of _ p] conjI impI)
qed

theorem drawable_frame_round_trip_witness:
  "video (example_screen\<lparr>orientation := SC_ORIENTATION_270\<rparr>)
   \<and> rect (example_screen\<lparr>orientation := SC_ORIENTATION_270\<rparr>)
       = \<lparr>rect_x = 0, rect_y = 0, rect_w = 540, rect_h = 960\<rparr>
   \<and> content_size (example_screen\<lparr>orientation := SC_ORIENTATION_270\<rparr>)
       = \<lparr>width = 1080, height = 1920\<rparr>
   \<and> sc_screen_convert_drawable_to_frame_coords
        (example_screen\<lparr>orientation := SC_ORIENTATION_270\<rparr>) 101 200
       = Inr \<lparr>point_x = 1520, point_y = 202\<rparr>
   \<and> frame_to_drawable_coords (example_screen\<lparr>orientation := SC_ORIENTATION_270\<rparr>)
        \<lparr>point_x = 1520, point_y = 202\<rparr> = \<lparr>point_x = 101, point_y = 200\<rparr>"
  using drawable_frame_round_trip
          [of "example_screen\<lparr>orientation := SC_ORIENTATION_270\<rparr>" 101 200]
  by (simp add: sc_screen_convert_drawable_to_frame_coords_def frame_to_drawable_coords_def
        scale_back_def preimage_first_def preimage_last_def ceil_div_def
        example_screen_def c_sdiv_def s32_def s64_def)

section \<open>Properties of the frame sink\<close>

text \<open>
  C8, as the program has it. A pixel format other than YUV420P is not answered by a
  failure: it fails the assertion at the head of \<^verbatim>\<open>sc_screen_frame_sink_open\<close>.
\<close>

theorem frame_sink_open_counterexample:
  "sc_screen_frame_sink_open example_screen
     \<lparr>pix_fmt = AV_PIX_FMT_NV12, ctx_width = 1080, ctx_height = 1920\<rparr> = Inl AssertionFailed
   \<and> sc_screen_frame_sink_open example_screen
     \<lparr>pix_fmt = AV_PIX_FMT_NV12, ctx_width = 1080, ctx_height = 1920\<rparr>
       \<noteq> Inr (False, example_screen)"
  by (simp add: sc_screen_frame_sink_open_def)

text \<open>
  C8, amended. With the pixel format YUV420P that the function asserts, a dimension that
  is not positive or exceeds 0xFFFF makes \<^verbatim>\<open>sc_screen_frame_sink_open\<close> return failure and
  leave the screen as it was; these are the only failures it returns; dimensions within
  the bounds make it return success, and the only change is the field \<^verbatim>\<open>open\<close>. Another
  pixel format fails the assertion.
\<close>

theorem frame_sink_open_rejects:
  "(pix_fmt ctx = AV_PIX_FMT_YUV420P
      \<and> (ctx_width ctx \<le> 0 \<or> ctx_width ctx > 0xFFFF
           \<or> ctx_height ctx \<le> 0 \<or> ctx_height ctx > 0xFFFF)
     \<longrightarrow> sc_screen_frame_sink_open screen ctx = Inr (False, screen))
   \<and> (sc_screen_frame_sink_open screen ctx = Inr (False, screen')
     \<longrightarrow> screen' = screen \<and> pix_fmt ctx = AV_PIX_FMT_YUV420P
          \<and> (ctx_width ctx \<le> 0 \<or> ctx_width ctx > 0xFFFF
               \<or> ctx_height ctx \<le> 0 \<or> ctx_height ctx > 0xFFFF))
   \<and> (pix_fmt ctx = AV_PIX_FMT_YUV420P
      \<and> 0 < ctx_width ctx \<and> ctx_width ctx \<le> 0xFFFF
      \<and> 0 < ctx_height ctx \<and> ctx_height ctx \<le> 0xFFFF
     \<longrightarrow> sc_screen_frame_sink_open screen ctx = Inr (True, screen\<lparr>sc_open := True\<rparr>))
   \<and> (pix_fmt ctx \<noteq> AV_PIX_FMT_YUV420P
     \<longrightarrow> sc_screen_frame_sink_open screen ctx = Inl AssertionFailed)"
proof (cases "pix_fmt ctx = AV_PIX_FMT_YUV420P")
  case False
  then have "sc_screen_frame_sink_open screen ctx = Inl AssertionFailed"
    by (simp add: sc_screen_frame_sink_open_def)
  with False show ?thesis by simp
next
  case fmt: True
  show ?thesis
  proof (cases "ctx_width ctx \<le> 0 \<or> ctx_width ctx > 0xFFFF
                \<or> ctx_height ctx \<le> 0 \<or> ctx_height ctx > 0xFFFF")
    case True
    with fmt have "sc_screen_frame_sink_open screen ctx = Inr (False, screen)"
      by (simp add: sc_screen_frame_sink_open_def)
    with fmt True show ?thesis by auto
  next
    case False
    with fmt have "sc_screen_frame_sink_open screen ctx
                     = Inr (True, screen\<lparr>sc_open := True\<rparr>)"
      by (simp add: sc_screen_frame_sink_open_def)
    with fmt False show ?thesis by auto
  qed
qed

theorem frame_sink_open_rejects_witness:
  "sc_screen_frame_sink_open example_screen
     \<lparr>pix_fmt = AV_PIX_FMT_YUV420P, ctx_width = 65536, ctx_height = 1920\<rparr>
     = Inr (False, example_screen)
   \<and> sc_screen_frame_sink_open example_screen
     \<lparr>pix_fmt = AV_PIX_FMT_YUV420P, ctx_width = 1080, ctx_height = 0\<rparr>
     = Inr (False, example_screen)
   \<and> sc_screen_frame_sink_open (example_screen\<lparr>sc_open := False\<rparr>)
     \<lparr>pix_fmt = AV_PIX_FMT_YUV420P, ctx_width = 1080, ctx_height = 1920\<rparr>
     = Inr (True, example_screen)
   \<and> sc_screen_frame_sink_open example_screen
     \<lparr>pix_fmt = AV_PIX_FMT_RGB24, ctx_width = 1080, ctx_height = 0\<rparr>
     = Inl AssertionFailed"
  using frame_sink_open_rejects
          [of "\<lparr>pix_fmt = AV_PIX_FMT_YUV420P, ctx_width = 65536, ctx_height = 1920\<rparr>"
              example_screen example_screen]
        frame_sink_open_rejects
          [of "\<lparr>pix_fmt = AV_PIX_FMT_YUV420P, ctx_width = 1080, ctx_height = 0\<rparr>"
              example_screen example_screen]
        frame_sink_open_rejects
          [of "\<lparr>pix_fmt = AV_PIX_FMT_YUV420P, ctx_width = 1080, ctx_height = 1920\<rparr>"
              "example_screen\<lparr>sc_open := False\<rparr>" example_screen]
        frame_sink_open_rejects
          [of "\<lparr>pix_fmt = AV_PIX_FMT_RGB24, ctx_width = 1080, ctx_height = 0\<rparr>"
              example_screen example_screen]
  by (simp add: example_screen_def)

lemma frame_sink_push_ok:
  assumes "sc_screen_frame_sink_push lib screen f = Inr (True, screen')"
  shows "video screen' \<and> pending_frame (fb screen') = Some f
     \<and> (if pending_frame (fb screen) = None
         then event_queue screen' = event_queue screen @ [SC_EVENT_NEW_FRAME]
              \<and> fps_counter screen' = fps_counter screen
         else event_queue screen' = event_queue screen
              \<and> nr_skipped (fps_counter screen') = nr_skipped (fps_counter screen) + 1
              \<and> nr_rendered (fps_counter screen') = nr_rendered (fps_counter screen))"
  using assms
  by (auto simp add: sc_screen_frame_sink_push_def sc_frame_buffer_push_def sc_push_event_def
        sc_fps_counter_add_skipped_frame_def Let_def split: if_splits prod.splits)

lemma push_frames_ok:
  assumes "push_frames lib screen fs = Inr (True, screen')" and "fs \<noteq> []"
  shows "pending_frame (fb screen') = Some (last fs)
     \<and> pending_notifications screen'
         = pending_notifications screen + (if pending_frame (fb screen) = None then 1 else 0)
     \<and> nr_skipped (fps_counter screen') + (if pending_frame (fb screen) = None then 1 else 0)
         = nr_skipped (fps_counter screen) + length fs"
  using assms
proof (induction fs arbitrary: screen)
  case Nil
  then show ?case by simp
next
  case (Cons f fs)
  from Cons.prems(1) obtain screen1 where
    one: "sc_screen_frame_sink_push lib screen f = Inr (True, screen1)"
    and rest: "push_frames lib screen1 fs = Inr (True, screen')"
    by (auto split: sum.splits if_splits)
  note step = frame_sink_push_ok [OF one]
  show ?case
  proof (cases "fs = []")
    case True
    with rest have "screen' = screen1" by simp
    with step True show ?thesis
      by (auto simp add: pending_notifications_def)
  next
    case False
    from Cons.IH [OF rest False] step False show ?thesis
      by (auto simp add: pending_notifications_def)
  qed
qed

text \<open>
  C1. A push that succeeds on a slot that holds a frame not yet consumed (the frame
  buffer then reports the previous frame as skipped) increments the count of skipped
  frames and posts no notification; a push that succeeds on an empty slot posts exactly
  one notification and skips nothing. So a run of successful pushes with no consume in
  between adds one notification when it starts on an empty slot and none otherwise: at
  most one notification is pending after it when none was pending before. A push
  succeeds when the frame can be referenced and, on an empty slot, the event is posted;
  a push that fails posts nothing and counts nothing.
\<close>

theorem frame_sink_push_coalesces:
  "(av_frame_ref_ok lib f \<longrightarrow>
      sc_frame_buffer_push lib buf f
        = (True, buf\<lparr>pending_frame := Some f\<rparr>, pending_frame buf \<noteq> None))
   \<and> (sc_screen_frame_sink_push lib screen f = Inr (True, screen')
        \<and> pending_frame (fb screen) \<noteq> None \<longrightarrow>
        nr_skipped (fps_counter screen') = nr_skipped (fps_counter screen) + 1
        \<and> event_queue screen' = event_queue screen)
   \<and> (sc_screen_frame_sink_push lib screen f = Inr (True, screen')
        \<and> pending_frame (fb screen) = None \<longrightarrow>
        event_queue screen' = event_queue screen @ [SC_EVENT_NEW_FRAME]
        \<and> pending_notifications screen' = pending_notifications screen + 1
        \<and> nr_skipped (fps_counter screen') = nr_skipped (fps_counter screen))
   \<and> (push_frames lib screen fs = Inr (True, screen'') \<and> fs \<noteq> [] \<longrightarrow>
        pending_notifications screen''
          = pending_notifications screen + (if pending_frame (fb screen) = None then 1 else 0)
        \<and> (pending_notifications screen = 0 \<longrightarrow> pending_notifications screen'' \<le> 1)
        \<and> pending_frame (fb screen'') = Some (last fs)
        \<and> nr_skipped (fps_counter screen'')
             + (if pending_frame (fb screen) = None then 1 else 0)
            = nr_skipped (fps_counter screen) + length fs)
   \<and> (video screen \<and> av_frame_ref_ok lib f
        \<and> (pending_frame (fb screen) = None \<longrightarrow>
              SDL_PushEvent lib (event_queue screen) SC_EVENT_NEW_FRAME) \<longrightarrow>
        (\<exists>s. sc_screen_frame_sink_push lib screen f = Inr (True, s)))
   \<and> (sc_screen_frame_sink_push lib screen f = Inr (False, screen') \<longrightarrow>
        event_queue screen' = event_queue screen
        \<and> fps_counter screen' = fps_counter screen)"
proof (intro conjI impI)
  assume "av_frame_ref_ok lib f"
  then show "sc_frame_buffer_push lib buf f
        = (True, buf\<lparr>pending_frame := Some f\<rparr>, pending_frame buf \<noteq> None)"
    by (simp add: sc_frame_buffer_push_def)
next
  assume "sc_screen_frame_sink_push lib screen f = Inr (True, screen')
        \<and> pending_frame (fb screen) \<noteq> None"
  then show "nr_skipped (fps_counter screen') = nr_skipped (fps_counter screen) + 1"
    and "event_queue screen' = event_queue screen"
    using frame_sink_push_ok [of lib screen f screen'] by simp_all
next
  assume "sc_screen_frame_sink_push lib screen f = Inr (True, screen')
        \<and> pending_frame (fb screen) = None"
  then show "event_queue screen' = event_queue screen @ [SC_EVENT_NEW_FRAME]"
    and "pending_notifications screen' = pending_notifications screen + 1"
    and "nr_skipped (fps_counter screen') = nr_skipped (fps_counter screen)"
    using frame_sink_push_ok [of lib screen f screen']
    by (simp_all add: pending_notifications_def)
next
  assume a: "push_frames lib screen fs = Inr (True, screen'') \<and> fs \<noteq> []"
  then have run: "pending_frame (fb screen'') = Some (last fs)
     \<and> pending_notifications screen''
         = pending_notifications screen + (if pending_frame (fb screen) = None then 1 else 0)
     \<and> nr_skipped (fps_counter screen'') + (if pending_frame (fb screen) = None then 1 else 0)
         = nr_skipped (fps_counter screen) + length fs"
    using push_frames_ok [of lib screen fs screen''] by simp
  then show "pending_notifications screen''
          = pending_notifications screen + (if pending_frame (fb screen) = None then 1 else 0)"
    and "pending_frame (fb screen'') = Some (last fs)"
    and "nr_skipped (fps_counter screen'')
             + (if pending_frame (fb screen) = None then 1 else 0)
            = nr_skipped (fps_counter screen) + length fs"
    by simp_all
  assume "pending_notifications screen = 0"
  with run show "pending_notifications screen'' \<le> 1" by simp
next
  assume "video screen \<and> av_frame_ref_ok lib f
        \<and> (pending_frame (fb screen) = None \<longrightarrow>
              SDL_PushEvent lib (event_queue screen) SC_EVENT_NEW_FRAME)"
  then show "\<exists>s. sc_screen_frame_sink_push lib screen f = Inr (True, s)"
    by (simp add: sc_screen_frame_sink_push_def sc_frame_buffer_push_def sc_push_event_def
          Let_def)
next
  assume "sc_screen_frame_sink_push lib screen f = Inr (False, screen')"
  then show "event_queue screen' = event_queue screen"
    and "fps_counter screen' = fps_counter screen"
    by (auto simp add: sc_screen_frame_sink_push_def sc_frame_buffer_push_def
          sc_push_event_def Let_def split: if_splits prod.splits)
qed

theorem frame_sink_push_coalesces_witness:
  "\<exists>s. push_frames example_platform example_screen
          [example_frame, held_frame, example_frame] = Inr (True, s)
       \<and> pending_notifications example_screen = 0
       \<and> pending_notifications s = 1
       \<and> pending_frame (fb s) = Some example_frame
       \<and> nr_skipped (fps_counter s) = 2"
proof -
  have run: "push_frames example_platform example_screen
          [example_frame, held_frame, example_frame]
      = Inr (True, example_screen
           \<lparr>fb := \<lparr>pending_frame = Some example_frame\<rparr>,
            fps_counter := \<lparr>started = False, nr_rendered = 1, nr_skipped = 2\<rparr>,
            event_queue := [SC_EVENT_NEW_FRAME]\<rparr>)"
    by (simp add: sc_screen_frame_sink_push_def sc_frame_buffer_push_def sc_push_event_def
          sc_fps_counter_add_skipped_frame_def example_platform_def example_screen_def Let_def)
  have empty: "pending_frame (fb example_screen) = None"
    and none: "pending_notifications example_screen = 0"
    by (simp_all add: example_screen_def pending_notifications_def)
  from frame_sink_push_coalesces
         [where lib = example_platform and screen = example_screen
            and fs = "[example_frame, held_frame, example_frame]"
            and screen'' = "example_screen
              \<lparr>fb := \<lparr>pending_frame = Some example_frame\<rparr>,
               fps_counter := \<lparr>started = False, nr_rendered = 1, nr_skipped = 2\<rparr>,
               event_queue := [SC_EVENT_NEW_FRAME]\<rparr>"]
       run empty none
  show ?thesis
    by (simp add: example_screen_def)
qed

section \<open>Properties of the window state\<close>

lemma sc_sdl_set_window_size_shape:
  "sc_sdl_set_window_size lib screen sz = Inr screen1 \<Longrightarrow>
   screen1 = screen\<lparr>sdl_calls := sdl_calls screen @ [SetWindowSize sz]\<rparr>"
  by (auto simp add: sc_sdl_set_window_size_def sdl_do_def split: if_splits)

lemma resize_for_content_shape:
  assumes "resize_for_content lib screen old_size new_size = Inr screen1"
  shows "\<exists>t. screen1 = screen\<lparr>sdl_calls := sdl_calls screen @ [SetWindowSize t]\<rparr>"
  using assms
  by (auto simp add: resize_for_content_def split: if_splits sum.splits
        dest: sc_sdl_set_window_size_shape)

lemma resize_for_content_returns:
  assumes "video screen" and "is_windowed lib screen"
    and "0 < width old_size" and "0 < height old_size"
    and "SDL_GetWindowSize lib (sdl_calls screen) = Some ws"
    and "\<forall>t. SDL_call_ok lib (sdl_calls screen) (SetWindowSize t)"
  shows "\<exists>t. resize_for_content lib screen old_size new_size
            = Inr (screen\<lparr>sdl_calls := sdl_calls screen @ [SetWindowSize t]\<rparr>)"
proof -
  obtain w h where ws: "ws = (w, h)" by (cases ws)
  let ?W = "\<lparr>width = word_of_int w, height = word_of_int h :: 16 word\<rparr>"
  have upos: "0 < unat (width old_size)" "0 < unat (height old_size)"
    using assms(3,4) by (simp_all add: unat_gt_0 word_greater_zero_iff)
  obtain t where t: "get_optimal_size lib
      \<lparr>width = word_of_nat (u32_mul (unat (width ?W)) (unat (width new_size))
                  div unat (width old_size)),
       height = word_of_nat (u32_mul (unat (height ?W)) (unat (height new_size))
                  div unat (height old_size))\<rparr> new_size True = Inr t"
    using get_optimal_size_returns by blast
  show ?thesis
    using assms(1,2,5,6) ws upos t
    by (intro exI [of _ t])
       (simp add: resize_for_content_def sc_sdl_get_window_size_def c_div_pos
          sc_sdl_set_window_size_def sdl_do_def)
qed

lemma set_content_size_not_windowed:
  assumes "video screen" and "\<not> is_windowed lib screen"
  shows "set_content_size lib screen n =
           Inr (if resize_pending screen then screen\<lparr>content_size := n\<rparr>
                else screen\<lparr>windowed_content_size := content_size screen,
                            resize_pending := True, content_size := n\<rparr>)"
  using assms by (simp add: set_content_size_def)

lemma set_content_sizes_pending:
  assumes "video screen" and "\<not> is_windowed lib screen" and "resize_pending screen"
  shows "\<exists>screen1. set_content_sizes lib screen ns = Inr screen1
     \<and> windowed_content_size screen1 = windowed_content_size screen
     \<and> resize_pending screen1 \<and> sdl_calls screen1 = sdl_calls screen
     \<and> content_size screen1 = last (content_size screen # ns)"
  using assms
proof (induction ns arbitrary: screen)
  case Nil
  then show ?case by simp
next
  case (Cons n ns)
  let ?s = "screen\<lparr>content_size := n\<rparr>"
  have one: "set_content_size lib screen n = Inr ?s"
    using Cons.prems by (simp add: set_content_size_not_windowed)
  have "video ?s" "\<not> is_windowed lib ?s" "resize_pending ?s"
    using Cons.prems by (simp_all add: is_windowed_def)
  from Cons.IH [OF this] one show ?case by auto
qed

text \<open>
  C5. While the window is not windowed, a call of \<^verbatim>\<open>set_content_size\<close> with no resize
  pending records the content size it replaces in \<^verbatim>\<open>windowed_content_size\<close> and sets
  \<^verbatim>\<open>resize_pending\<close>, and after any further calls the record still holds that size; a
  call while \<^verbatim>\<open>resize_pending\<close> is set never changes the record.
  \<^verbatim>\<open>apply_pending_resize\<close>, when a resize is pending, is \<^verbatim>\<open>resize_for_content\<close> from the
  recorded size to the current content size followed by the clearing of
  \<^verbatim>\<open>resize_pending\<close>; it returns as soon as the recorded size has positive dimensions
  and SDL answers; and once it has returned, nothing is pending and a second call
  changes nothing.
\<close>

theorem pending_resize_record:
  "(video screen \<and> \<not> is_windowed lib screen \<and> \<not> resize_pending screen \<longrightarrow>
      set_content_size lib screen n
        = Inr (screen\<lparr>windowed_content_size := content_size screen,
                      resize_pending := True, content_size := n\<rparr>)
      \<and> (\<exists>screen1. set_content_sizes lib screen (n # ns) = Inr screen1
            \<and> windowed_content_size screen1 = content_size screen
            \<and> resize_pending screen1
            \<and> content_size screen1 = last (n # ns)))
   \<and> (resize_pending screen \<and> set_content_size lib screen n = Inr screen' \<longrightarrow>
        windowed_content_size screen' = windowed_content_size screen
        \<and> resize_pending screen' \<and> content_size screen' = n)
   \<and> (video screen \<and> is_windowed lib screen \<and> resize_pending screen \<longrightarrow>
        apply_pending_resize lib screen
          = (case resize_for_content lib screen (windowed_content_size screen)
                    (content_size screen) of
               Inl e \<Rightarrow> Inl e
             | Inr screen1 \<Rightarrow> Inr (screen1\<lparr>resize_pending := False\<rparr>)))
   \<and> (video screen \<and> is_windowed lib screen \<and> resize_pending screen
        \<and> 0 < width (windowed_content_size screen)
        \<and> 0 < height (windowed_content_size screen)
        \<and> SDL_GetWindowSize lib (sdl_calls screen) = Some ws
        \<and> (\<forall>t. SDL_call_ok lib (sdl_calls screen) (SetWindowSize t)) \<longrightarrow>
        (\<exists>t. apply_pending_resize lib screen
                = Inr (screen\<lparr>sdl_calls := sdl_calls screen @ [SetWindowSize t],
                              resize_pending := False\<rparr>)))
   \<and> (apply_pending_resize lib screen = Inr screen'' \<longrightarrow>
        \<not> resize_pending screen''
        \<and> windowed_content_size screen'' = windowed_content_size screen
        \<and> content_size screen'' = content_size screen
        \<and> (is_windowed lib screen'' \<longrightarrow> apply_pending_resize lib screen'' = Inr screen''))"
proof (intro conjI impI)
  assume a: "video screen \<and> \<not> is_windowed lib screen \<and> \<not> resize_pending screen"
  let ?s = "screen\<lparr>windowed_content_size := content_size screen,
                     resize_pending := True, content_size := n\<rparr>"
  show one: "set_content_size lib screen n = Inr ?s"
    using a by (simp add: set_content_size_not_windowed)
  have "video ?s" "\<not> is_windowed lib ?s" "resize_pending ?s"
    using a by (simp_all add: is_windowed_def)
  from set_content_sizes_pending [OF this, of ns] one
  show "\<exists>screen1. set_content_sizes lib screen (n # ns) = Inr screen1
            \<and> windowed_content_size screen1 = content_size screen
            \<and> resize_pending screen1
            \<and> content_size screen1 = last (n # ns)"
    by auto
next
  assume a: "resize_pending screen \<and> set_content_size lib screen n = Inr screen'"
  then show "windowed_content_size screen' = windowed_content_size screen"
    and "resize_pending screen'" and "content_size screen' = n"
    by (auto simp add: set_content_size_def split: if_splits sum.splits
          dest!: resize_for_content_shape)
next
  assume "video screen \<and> is_windowed lib screen \<and> resize_pending screen"
  then show "apply_pending_resize lib screen
          = (case resize_for_content lib screen (windowed_content_size screen)
                    (content_size screen) of
               Inl e \<Rightarrow> Inl e
             | Inr screen1 \<Rightarrow> Inr (screen1\<lparr>resize_pending := False\<rparr>))"
    by (simp add: apply_pending_resize_def)
next
  assume a: "video screen \<and> is_windowed lib screen \<and> resize_pending screen
        \<and> 0 < width (windowed_content_size screen)
        \<and> 0 < height (windowed_content_size screen)
        \<and> SDL_GetWindowSize lib (sdl_calls screen) = Some ws
        \<and> (\<forall>t. SDL_call_ok lib (sdl_calls screen) (SetWindowSize t))"
  then obtain t where "resize_for_content lib screen (windowed_content_size screen)
       (content_size screen) = Inr (screen\<lparr>sdl_calls := sdl_calls screen @ [SetWindowSize t]\<rparr>)"
    using resize_for_content_returns [of screen lib "windowed_content_size screen" ws "content_size screen"]
    by blast
  with a show "\<exists>t. apply_pending_resize lib screen
                = Inr (screen\<lparr>sdl_calls := sdl_calls screen @ [SetWindowSize t],
                              resize_pending := False\<rparr>)"
    by (intro exI [of _ t]) (simp add: apply_pending_resize_def)
next
  assume a: "apply_pending_resize lib screen = Inr screen''"
  then show "\<not> resize_pending screen''"
    and "windowed_content_size screen'' = windowed_content_size screen"
    and "content_size screen'' = content_size screen"
    by (auto simp add: apply_pending_resize_def split: if_splits sum.splits
          dest!: resize_for_content_shape)
  assume "is_windowed lib screen''"
  with a show "apply_pending_resize lib screen'' = Inr screen''"
    by (auto simp add: apply_pending_resize_def split: if_splits sum.splits
          dest!: resize_for_content_shape)
qed

theorem pending_resize_record_witness:
  "set_content_size fullscreen_platform example_screen \<lparr>width = 1920, height = 1080\<rparr>
     = Inr (example_screen\<lparr>windowed_content_size := \<lparr>width = 1080, height = 1920\<rparr>,
                           resize_pending := True,
                           content_size := \<lparr>width = 1920, height = 1080\<rparr>\<rparr>)
   \<and> (\<exists>screen1. set_content_sizes fullscreen_platform example_screen
          [\<lparr>width = 1920, height = 1080\<rparr>, \<lparr>width = 720, height = 1280\<rparr>] = Inr screen1
        \<and> windowed_content_size screen1 = \<lparr>width = 1080, height = 1920\<rparr>
        \<and> resize_pending screen1
        \<and> content_size screen1 = \<lparr>width = 720, height = 1280\<rparr>)
   \<and> apply_pending_resize example_platform
          (example_screen\<lparr>windowed_content_size := \<lparr>width = 1080, height = 1920\<rparr>,
                          resize_pending := True,
                          content_size := \<lparr>width = 720, height = 1280\<rparr>\<rparr>)
        = Inr (example_screen
                 \<lparr>windowed_content_size := \<lparr>width = 1080, height = 1920\<rparr>,
                  resize_pending := True,
                  content_size := \<lparr>width = 720, height = 1280\<rparr>,
                  sdl_calls := sdl_calls example_screen
                     @ [SetWindowSize \<lparr>width = 360, height = 640\<rparr>],
                  resize_pending := False\<rparr>)"
proof -
  let ?pending = "example_screen\<lparr>windowed_content_size := \<lparr>width = 1080, height = 1920\<rparr>,
                                 resize_pending := True,
                                 content_size := \<lparr>width = 720, height = 1280\<rparr>\<rparr>"
  have h1: "video example_screen \<and> \<not> is_windowed fullscreen_platform example_screen
            \<and> \<not> resize_pending example_screen"
    by (simp add: is_windowed_def fullscreen_platform_def example_platform_def
          example_screen_def)
  have h2: "video ?pending \<and> is_windowed example_platform ?pending \<and> resize_pending ?pending
        \<and> 0 < width (windowed_content_size ?pending)
        \<and> 0 < height (windowed_content_size ?pending)
        \<and> SDL_GetWindowSize example_platform (sdl_calls ?pending)
            = Some (540, 960)
        \<and> (\<forall>t. SDL_call_ok example_platform (sdl_calls ?pending) (SetWindowSize t))"
    by (simp add: is_windowed_def example_platform_def example_screen_def)
  have content: "content_size example_screen = \<lparr>width = 1080, height = 1920\<rparr>"
    by (simp add: example_screen_def)
  have target: "resize_for_content example_platform ?pending
       \<lparr>width = 1080, height = 1920\<rparr> \<lparr>width = 720, height = 1280\<rparr>
     = Inr (?pending\<lparr>sdl_calls := sdl_calls example_screen
                        @ [SetWindowSize \<lparr>width = 360, height = 640\<rparr>]\<rparr>)"
    by (simp add: resize_for_content_def sc_sdl_get_window_size_def u32_mul_def c_div_def
          c_sdiv_def int_mul_def s32_def get_optimal_size_def get_preferred_display_bounds_def DISPLAY_MARGINS_def
          is_optimal_size_def is_windowed_def sc_sdl_set_window_size_def sdl_do_def
          example_platform_def example_screen_def Let_def)
  from pending_resize_record
         [where lib = fullscreen_platform and screen = example_screen
            and n = "\<lparr>width = 1920, height = 1080\<rparr>"
            and ns = "[\<lparr>width = 720, height = 1280\<rparr>]",
          THEN conjunct1, THEN mp, OF h1]
       pending_resize_record
         [where lib = example_platform and screen = ?pending
            and ws = "(540, 960)",
          THEN conjunct2, THEN conjunct2, THEN conjunct1, THEN mp]
       h2 content target
  show ?thesis by (simp del: set_content_sizes.simps)
qed

section \<open>Properties of pause and resume\<close>

text \<open>
  C9. While the screen is not paused, \<^verbatim>\<open>sc_screen_set_paused\<close> with \<^verbatim>\<open>false\<close> returns the
  screen as it was: no field changes and no call reaches the window or the renderer.
\<close>

theorem set_paused_false_noop:
  assumes "video screen" and "\<not> paused screen"
  shows "sc_screen_set_paused lib screen False = Inr screen"
  using assms by (simp add: sc_screen_set_paused_def)

theorem set_paused_false_noop_witness:
  "video example_screen \<and> \<not> paused example_screen
   \<and> sc_screen_set_paused exhausted_platform example_screen False = Inr example_screen"
  using set_paused_false_noop [of example_screen exhausted_platform]
  by (simp add: example_screen_def)

lemma sum_bindE:
  assumes "(case m of Inl e \<Rightarrow> Inl e | Inr v \<Rightarrow> f v) = Inr r"
  obtains v where "m = Inr v" and "f v = Inr r"
  using assms by (cases m) auto

lemma guardE:
  assumes "(if c then Inl e else m) = Inr r"
  obtains "\<not> c" and "m = Inr r"
  using assms by (cases c) auto

lemma playback_kept_refl: "playback_kept a a"
  by (simp add: playback_kept_def)

lemma playback_kept_trans:
  "playback_kept a b \<Longrightarrow> playback_kept b c \<Longrightarrow> playback_kept a c"
  by (simp add: playback_kept_def)

lemma sdl_do_kept:
  "c \<noteq> RenderPresent \<Longrightarrow> \<not> is_draw c \<Longrightarrow>
   playback_kept screen (snd (sdl_do lib screen c))"
  by (simp add: sdl_do_def playback_kept_def presents_def draws_def)

lemma sc_sdl_set_window_size_kept:
  "sc_sdl_set_window_size lib screen sz = Inr screen1 \<Longrightarrow> playback_kept screen screen1"
  by (auto simp add: sc_sdl_set_window_size_def sdl_do_def playback_kept_def presents_def draws_def
        split: if_splits)

lemma sc_sdl_set_window_position_kept:
  "sc_sdl_set_window_position lib screen pt = Inr screen1 \<Longrightarrow> playback_kept screen screen1"
  by (auto simp add: sc_sdl_set_window_position_def sdl_do_def playback_kept_def presents_def draws_def
        split: if_splits)

lemma sc_sdl_show_window_kept:
  "sc_sdl_show_window lib screen = Inr screen1 \<Longrightarrow> playback_kept screen screen1"
  by (auto simp add: sc_sdl_show_window_def sdl_do_def playback_kept_def presents_def draws_def
        split: if_splits)

lemma update_content_rect_shape:
  assumes "sc_screen_update_content_rect lib screen = Inr screen1"
  shows "\<exists>r. screen1 = screen\<lparr>rect := r\<rparr>"
  using assms unfolding sc_screen_update_content_rect_def Let_def
  apply (elim guardE sum_bindE)
  subgoal for R b
    apply (cases b)
     apply (auto split: if_splits elim!: sum_bindE)
    done
  done

lemma update_content_rect_kept:
  "sc_screen_update_content_rect lib screen = Inr screen1 \<Longrightarrow> playback_kept screen screen1"
  by (auto simp add: playback_kept_def presents_def draws_def dest!: update_content_rect_shape)

lemma toggle_fullscreen_kept:
  "(if b then sc_screen_toggle_fullscreen lib screen else Inr screen) = Inr screen1 \<Longrightarrow>
   playback_kept screen screen1"
  by (auto simp add: sc_screen_toggle_fullscreen_def Let_def sdl_do_kept playback_kept_refl
        split: if_splits)

lemma fps_counter_start_kept:
  "playback_kept screen (if b then screen\<lparr>fps_counter := c\<rparr> else screen)"
  by (simp add: playback_kept_def presents_def draws_def)

lemma resize_for_content_kept:
  "resize_for_content lib screen old_size new_size = Inr screen1 \<Longrightarrow>
   playback_kept screen screen1"
  unfolding resize_for_content_def
  by (elim sum_bindE guardE) (rule sc_sdl_set_window_size_kept)

lemma set_content_size_kept:
  "set_content_size lib screen n = Inr screen1 \<Longrightarrow>
   playback_kept (screen\<lparr>content_size := n\<rparr>) screen1"
  by (auto simp add: set_content_size_def playback_kept_def presents_def draws_def
        split: if_splits sum.splits dest!: resize_for_content_kept)

lemma presents_fps_counter [simp]: "presents (s\<lparr>fps_counter := c\<rparr>) = presents s"
  by (simp add: presents_def)

lemma draws_fps_counter [simp]: "draws (s\<lparr>fps_counter := c\<rparr>) = draws s"
  by (simp add: draws_def)

lemma show_initial_window_kept:
  assumes "sc_screen_show_initial_window lib screen = Inr screen1"
  shows "playback_kept screen screen1"
  using assms unfolding sc_screen_show_initial_window_def Let_def
  apply (elim sum_bindE guardE)
  apply (drule sc_sdl_set_window_size_kept sc_sdl_set_window_position_kept
        toggle_fullscreen_kept sc_sdl_show_window_kept update_content_rect_kept)+
  apply (simp add: playback_kept_def split: if_splits)
  done

lemma render_playback:
  assumes "sc_screen_render lib screen False = Inr screen1"
    and "texture (display screen) = Some tex"
  shows "frame screen1 = frame screen \<and> resume_frame screen1 = resume_frame screen
   \<and> paused screen1 = paused screen \<and> video screen1 = video screen
   \<and> display screen1 = display screen
   \<and> (\<exists>cs. sdl_calls screen1
              = cs @ (if SDL_call_ok lib cs (draw_call screen1 tex)
                      then [draw_call screen1 tex] else []) @ [RenderPresent]
           \<and> length (filter is_draw cs) = draws screen
           \<and> length (filter (\<lambda>c. c = RenderPresent) cs) = presents screen)"
proof -
  define cs where
    "cs = sdl_calls screen
            @ (if SDL_call_ok lib (sdl_calls screen) RenderClear then [RenderClear] else [])"
  define d where
    "d = (if orientation screen = SC_ORIENTATION_0 then RenderTexture tex (rect screen)
          else RenderTextureRotated tex (rect screen) (orientation screen))"
  define s2 where "s2 = screen\<lparr>sdl_calls := cs\<rparr>"
  define s3 where
    "s3 = screen\<lparr>sdl_calls := cs @ (if SDL_call_ok lib cs d then [d] else [])\<rparr>"
  have clear: "snd (sc_sdl_render_clear lib screen) = s2"
    by (simp add: sc_sdl_render_clear_def sdl_do_def s2_def cs_def)
  have draw: "(if orientation s2 = SC_ORIENTATION_0
               then snd (sdl_do lib s2 (RenderTexture tex (rect s2)))
               else snd (sdl_do lib s2 (RenderTextureRotated tex (rect s2) (orientation s2))))
              = s3"
    by (simp add: sdl_do_def s2_def s3_def d_def)
  have tex2: "texture (display s2) = Some tex"
    using assms(2) by (simp add: s2_def)
  have "sc_sdl_render_present lib s3 = Inr screen1"
    using assms(1) clear draw tex2
    by (simp add: sc_screen_render_def Let_def split: if_splits)
  then have s1: "screen1 = s3\<lparr>sdl_calls := sdl_calls s3 @ [RenderPresent]\<rparr>"
    by (auto simp add: sc_sdl_render_present_def sdl_do_def split: if_splits)
  have d1: "draw_call screen1 tex = d"
    by (simp add: s1 s3_def d_def draw_call_def)
  have c1: "length (filter is_draw cs) = draws screen"
    and c2: "length (filter (\<lambda>c. c = RenderPresent) cs) = presents screen"
    by (simp_all add: cs_def draws_def presents_def)
  have c3: "sdl_calls screen1
      = cs @ (if SDL_call_ok lib cs (draw_call screen1 tex)
              then [draw_call screen1 tex] else []) @ [RenderPresent]"
    unfolding d1 by (simp add: s1 s3_def)
  have fields: "frame screen1 = frame screen" "resume_frame screen1 = resume_frame screen"
    "paused screen1 = paused screen" "video screen1 = video screen"
    "display screen1 = display screen"
    by (simp_all add: s1 s3_def)
  from c1 c2 c3 have "\<exists>cs. sdl_calls screen1
              = cs @ (if SDL_call_ok lib cs (draw_call screen1 tex)
                      then [draw_call screen1 tex] else []) @ [RenderPresent]
           \<and> length (filter is_draw cs) = draws screen
           \<and> length (filter (\<lambda>c. c = RenderPresent) cs) = presents screen"
    by (intro exI [of _ cs] conjI)
  with fields show ?thesis by (intro conjI)
qed

lemma prepare_texture_cases:
  "sc_display_prepare_texture lib disp sz = (ok, disp1) \<Longrightarrow>
   (if ok then texture disp1 = Some \<lparr>tex_size = sz, tex_frame = None\<rparr> else disp1 = disp)"
  by (auto simp add: sc_display_prepare_texture_def split: if_splits)

lemma update_texture_cases:
  "sc_display_update_texture lib disp f = (ok, disp1) \<Longrightarrow>
   (if ok then update_texture_ok lib f
               \<and> (\<exists>tex. texture disp1 = Some tex \<and> tex_frame tex = Some f)
    else disp1 = disp)"
  by (auto simp add: sc_display_update_texture_def split: if_splits option.splits)

lemma apply_frame_playback:
  assumes "sc_screen_apply_frame lib screen = Inr (ok, screen1)"
  shows "frame screen1 = frame screen \<and> resume_frame screen1 = resume_frame screen
     \<and> paused screen1 = paused screen \<and> video screen1
     \<and> (\<not> ok \<longrightarrow> presents screen1 = presents screen \<and> draws screen1 = draws screen)
     \<and> (ok \<longrightarrow> update_texture_ok lib (frame screen)
              \<and> (\<exists>tex cs. texture (display screen1) = Some tex
                        \<and> tex_frame tex = Some (frame screen)
                        \<and> sdl_calls screen1
                            = cs @ (if SDL_call_ok lib cs (draw_call screen1 tex)
                                    then [draw_call screen1 tex] else []) @ [RenderPresent]
                        \<and> length (filter is_draw cs) = draws screen
                        \<and> length (filter (\<lambda>c. c = RenderPresent) cs) = presents screen))"
proof -
  define s1 where
    "s1 = screen\<lparr>fps_counter := sc_fps_counter_add_rendered_frame (fps_counter screen)\<rparr>"
  define nfs where
    "nfs = \<lparr>width = word_of_int (frame_width (frame s1)) :: 16 word,
            height = word_of_int (frame_height (frame s1)) :: 16 word\<rparr>"
  define G where
    "G = (if \<not> has_frame s1
                  \<or> width (frame_size s1) \<noteq> width nfs
                  \<or> height (frame_size s1) \<noteq> height nfs
               then
                 (let (ok, disp) =
                        sc_display_prepare_texture lib (display s1) nfs
                  in if \<not> ok then Inr (False, s1\<lparr>display := disp\<rparr>)
                     else
                       let screen2 = s1\<lparr>display := disp, frame_size := nfs\<rparr>;
                           new_content_size =
                             get_oriented_size nfs (orientation screen2)
                       in if has_frame screen2
                          then (case set_content_size lib screen2 new_content_size of
                                  Inl e \<Rightarrow> Inl e
                                | Inr screen3 \<Rightarrow>
                                    (case sc_screen_update_content_rect lib screen3 of
                                       Inl e \<Rightarrow> Inl e
                                     | Inr screen4 \<Rightarrow> Inr (True, screen4)))
                          else Inr (True, screen2\<lparr>has_frame := True,
                                                  content_size := new_content_size\<rparr>))
               else Inr (True, s1))"
  define W where
    "W = (\<lambda>screen6. if \<not> has_video_window screen6
                                   then (case sc_screen_show_initial_window lib
                                                (screen6\<lparr>has_video_window := True\<rparr>) of
                                           Inl e \<Rightarrow> Inl e
                                         | Inr screen7 \<Rightarrow>
                                             Inr (if sc_screen_is_relative_mode screen7
                                                  then screen7\<lparr>mouse_capture_active := True\<rparr>
                                                  else screen7))
                                   else Inr screen6)"
  define R where
    "R = (\<lambda>screen5. let (ok, disp) =
                        sc_display_update_texture lib (display screen5) (frame screen5)
                  in if \<not> ok then Inr (False, screen5\<lparr>display := disp\<rparr>)
                     else
                       let screen6 = screen5\<lparr>display := disp\<rparr>
                       in if \<not> has_frame screen6 then Inl AssertionFailed
                          else
                            (case W screen6 of
                               Inl e \<Rightarrow> Inl e
                             | Inr screen8 \<Rightarrow>
                                 (case sc_screen_render lib screen8 False of
                                    Inl e \<Rightarrow> Inl e
                                  | Inr screen9 \<Rightarrow> Inr (True, screen9))))"
  have unfolded: "sc_screen_apply_frame lib screen =
     (if \<not> video screen then Inl AssertionFailed
      else case G of
             Inl e \<Rightarrow> Inl e
           | Inr (proceed, screen5) \<Rightarrow>
               if \<not> proceed then Inr (False, screen5) else R screen5)"
    unfolding sc_screen_apply_frame_def G_def R_def W_def nfs_def s1_def Let_def
    by (rule refl)
  have s1_kept: "playback_kept screen s1"
    by (simp add: s1_def playback_kept_def)
  have G_kept: "frame s5 = frame screen \<and> resume_frame s5 = resume_frame screen
       \<and> paused s5 = paused screen \<and> video s5 = video screen
       \<and> presents s5 = presents screen \<and> draws s5 = draws screen"
    if "G = Inr (proceed, s5)" for proceed s5
  proof (cases "\<not> has_frame s1 \<or> width (frame_size s1) \<noteq> width nfs
                  \<or> height (frame_size s1) \<noteq> height nfs")
    case False
    with that have "s5 = s1" by (simp add: G_def)
    with s1_kept show ?thesis by (simp add: playback_kept_def)
  next
    case True
    obtain pok disp where prep: "sc_display_prepare_texture lib (display s1) nfs = (pok, disp)"
      by (cases "sc_display_prepare_texture lib (display s1) nfs")
    show ?thesis
    proof (cases pok)
      case False
      with that True prep have "s5 = s1\<lparr>display := disp\<rparr>" by (simp add: G_def)
      with s1_kept show ?thesis by (simp add: playback_kept_def presents_def draws_def)
    next
      case pok: True
      let ?s2 = "s1\<lparr>display := disp, frame_size := nfs\<rparr>"
      have s2: "frame ?s2 = frame screen \<and> resume_frame ?s2 = resume_frame screen
         \<and> paused ?s2 = paused screen \<and> video ?s2 = video screen
         \<and> presents ?s2 = presents screen \<and> draws ?s2 = draws screen"
        using s1_kept by (simp add: playback_kept_def presents_def draws_def)
      show ?thesis
      proof (cases "has_frame s1")
        case False
        with that True prep pok
        have "s5 = ?s2\<lparr>has_frame := True,
                 content_size := get_oriented_size nfs (orientation ?s2)\<rparr>"
          by (simp add: G_def Let_def)
        with s2 show ?thesis by (simp add: presents_def draws_def)
      next
        case hf: True
        with that True prep pok obtain s3 where
          a: "set_content_size lib ?s2 (get_oriented_size nfs (orientation ?s2)) = Inr s3"
          and b: "sc_screen_update_content_rect lib s3 = Inr s5"
          by (auto simp add: G_def Let_def split: sum.splits)
        from set_content_size_kept [OF a] update_content_rect_kept [OF b] s2
        show ?thesis by (simp add: playback_kept_def presents_def draws_def)
      qed
    qed
  qed
  have W_kept: "playback_kept (s6\<lparr>has_video_window := True\<rparr>) s8"
    if "W s6 = Inr s8" for s6 s8
  proof (cases "has_video_window s6")
    case True
    with that show ?thesis by (simp add: W_def playback_kept_def presents_def draws_def)
  next
    case False
    with that obtain s7 where
      a: "sc_screen_show_initial_window lib (s6\<lparr>has_video_window := True\<rparr>) = Inr s7"
      and b: "s8 = (if sc_screen_is_relative_mode s7
                    then s7\<lparr>mouse_capture_active := True\<rparr> else s7)"
      by (auto simp add: W_def split: sum.splits)
    from show_initial_window_kept [OF a] b show ?thesis
      by (simp add: playback_kept_def presents_def draws_def)
  qed
  have R_kept: "frame s9 = frame s5 \<and> resume_frame s9 = resume_frame s5
       \<and> paused s9 = paused s5 \<and> video s9 = video s5
       \<and> (\<not> ok \<longrightarrow> presents s9 = presents s5 \<and> draws s9 = draws s5)
       \<and> (ok \<longrightarrow> update_texture_ok lib (frame s5)
              \<and> (\<exists>tex cs. texture (display s9) = Some tex \<and> tex_frame tex = Some (frame s5)
                        \<and> sdl_calls s9
                            = cs @ (if SDL_call_ok lib cs (draw_call s9 tex)
                                    then [draw_call s9 tex] else []) @ [RenderPresent]
                        \<and> length (filter is_draw cs) = draws s5
                        \<and> length (filter (\<lambda>c. c = RenderPresent) cs) = presents s5))"
    if "R s5 = Inr (ok, s9)" for s5 s9 ok
  proof -
    obtain uok disp where
      upd: "sc_display_update_texture lib (display s5) (frame s5) = (uok, disp)"
      by (cases "sc_display_update_texture lib (display s5) (frame s5)")
    note tex = update_texture_cases [OF upd]
    show ?thesis
    proof (cases uok)
      case False
      with that upd have "ok = False" and "s9 = s5\<lparr>display := disp\<rparr>"
        by (simp_all add: R_def)
      then show ?thesis by (simp add: presents_def draws_def)
    next
      case True
      let ?s6 = "s5\<lparr>display := disp\<rparr>"
      from that upd True obtain s8 where
        a: "W ?s6 = Inr s8" and b: "sc_screen_render lib s8 False = Inr s9" and c: "ok"
        by (auto simp add: R_def Let_def split: if_splits sum.splits)
      from tex True obtain t where t: "texture disp = Some t" "tex_frame t = Some (frame s5)"
        and u: "update_texture_ok lib (frame s5)"
        by auto
      note k = W_kept [OF a]
      then have t8: "texture (display s8) = Some t"
        using t by (simp add: playback_kept_def)
      from render_playback [OF b t8] obtain cs where
        r: "frame s9 = frame s8" "resume_frame s9 = resume_frame s8" "paused s9 = paused s8"
           "video s9 = video s8" "display s9 = display s8"
        and l: "sdl_calls s9 = cs @ (if SDL_call_ok lib cs (draw_call s9 t)
                    then [draw_call s9 t] else []) @ [RenderPresent]"
           "length (filter is_draw cs) = draws s8"
           "length (filter (\<lambda>c. c = RenderPresent) cs) = presents s8"
        by blast
      have k8: "frame s8 = frame s5" "resume_frame s8 = resume_frame s5"
        "paused s8 = paused s5" "video s8 = video s5" "draws s8 = draws s5"
        "presents s8 = presents s5"
        using k by (simp_all add: playback_kept_def presents_def draws_def)
      have "\<exists>tex cs. texture (display s9) = Some tex \<and> tex_frame tex = Some (frame s5)
                        \<and> sdl_calls s9
                            = cs @ (if SDL_call_ok lib cs (draw_call s9 tex)
                                    then [draw_call s9 tex] else []) @ [RenderPresent]
                        \<and> length (filter is_draw cs) = draws s5
                        \<and> length (filter (\<lambda>c. c = RenderPresent) cs) = presents s5"
        using t t8 r(5) l k8 by (intro exI [of _ t] exI [of _ cs]) simp
      with r k8 c u show ?thesis by simp
    qed
  qed
  from assms have v: "video screen"
    by (auto simp add: unfolded split: if_splits)
  from assms v obtain proceed s5 where
    g: "G = Inr (proceed, s5)"
    and r: "(if \<not> proceed then Inr (False, s5) else R s5) = Inr (ok, screen1)"
    by (auto simp add: unfolded split: sum.splits)
  show ?thesis
  proof (cases proceed)
    case False
    with r have "ok = False" and "screen1 = s5" by simp_all
    with G_kept [OF g] v show ?thesis by simp
  next
    case True
    with r have "R s5 = Inr (ok, screen1)" by simp
    from R_kept [OF this] G_kept [OF g] v show ?thesis by simp
  qed
qed

text \<open>
  When SDL answers, the dimensions of the frame are positive and fit 16 bits, the
  content size in use is positive and the window is windowed before it is first shown,
  no assertion fails and no division traps in \<^verbatim>\<open>sc_screen_apply_frame\<close>.
\<close>

lemma sdl_do_answers:
  "sdl_answers lib \<Longrightarrow>
   sdl_do lib screen c = (True, screen\<lparr>sdl_calls := sdl_calls screen @ [c]\<rparr>)"
  by (simp add: sdl_answers_def sdl_do_def)

lemma get_initial_optimal_size_returns:
  assumes "0 < width C" and "0 < height C"
  shows "\<exists>r. get_initial_optimal_size lib C rw rh = Inr r"
proof (cases "rw = 0 \<and> rh = 0")
  case True
  then show ?thesis
    using get_optimal_size_returns [of lib C C True]
    by (simp add: get_initial_optimal_size_def)
next
  case False
  have "0 < unat (width C)" "0 < unat (height C)"
    using assms by (simp_all add: unat_gt_0 word_greater_zero_iff)
  with False show ?thesis
    by (simp add: get_initial_optimal_size_def c_div_pos)
qed

lemma update_content_rect_returns:
  assumes "sdl_answers lib" and "video screen"
    and "0 < width (content_size screen)" and "0 < height (content_size screen)"
  shows "\<exists>screen1. sc_screen_update_content_rect lib screen = Inr screen1"
proof -
  let ?C = "content_size screen"
  obtain wh where "SDL_GetRenderOutputSize lib (sdl_calls screen) = Some wh"
    using assms(1) by (metis sdl_answers_def not_None_eq)
  then obtain R where R: "sc_sdl_get_render_output_size lib screen = Inr R"
    by (cases wh) (simp add: sc_sdl_get_render_output_size_def)
  have nz: "width ?C \<noteq> 0" "height ?C \<noteq> 0"
    using assms(3,4) by (simp_all add: word_greater_zero_iff)
  then have unz: "uint (width ?C) \<noteq> 0" "uint (height ?C) \<noteq> 0"
    by (simp_all add: uint_0_iff)
  obtain o1 where o1: "is_optimal_size R ?C = Inr o1"
    using is_optimal_size_returns [OF nz] by blast
  obtain h where h: "c_sdiv (int_mul (width R) (height ?C)) (uint (width ?C)) = Inr h"
    using c_sdiv_returns [OF unz(1)] by blast
  obtain y where y: "c_sdiv (s32 (uint (height R) - h)) 2 = Inr y"
    using c_sdiv_returns [of 2] by auto
  obtain w where w: "c_sdiv (int_mul (height R) (width ?C)) (uint (height ?C)) = Inr w"
    using c_sdiv_returns [OF unz(2)] by blast
  obtain x where x: "c_sdiv (s32 (uint (width R) - w)) 2 = Inr x"
    using c_sdiv_returns [of 2] by auto
  show ?thesis
    using assms(2) R o1 h y w x unfolding sc_screen_update_content_rect_def Let_def
    by (cases o1) simp_all
qed

lemma toggle_fullscreen_returns:
  "video screen \<Longrightarrow>
   \<exists>screen1. (if b then sc_screen_toggle_fullscreen lib screen else Inr screen) = Inr screen1"
  by (simp add: sc_screen_toggle_fullscreen_def Let_def)

lemma show_initial_window_returns:
  assumes "sdl_answers lib" and "video screen" and "is_windowed lib screen"
    and "0 < width (content_size screen)" and "0 < height (content_size screen)"
  shows "\<exists>screen1. sc_screen_show_initial_window lib screen = Inr screen1"
proof -
  let ?pos = "\<lparr>point_x = (if req_x screen \<noteq> SC_WINDOW_POSITION_UNDEFINED lib
               then req_x screen else SDL_WINDOWPOS_CENTERED lib),
              point_y = (if req_y screen \<noteq> SC_WINDOW_POSITION_UNDEFINED lib
               then req_y screen else SDL_WINDOWPOS_CENTERED lib)\<rparr>"
  obtain ws where ws: "get_initial_optimal_size lib (content_size screen)
      (req_width screen) (req_height screen) = Inr ws"
    using get_initial_optimal_size_returns [OF assms(4,5)] by blast
  obtain s1 where s1: "sc_sdl_set_window_size lib screen ws = Inr s1"
    using assms(1) by (simp add: sc_sdl_set_window_size_def sdl_do_answers)
  obtain s2 where s2: "sc_sdl_set_window_position lib s1 ?pos = Inr s2"
    using assms(1) by (simp add: sc_sdl_set_window_position_def sdl_do_answers)
  have k2: "playback_kept screen s2"
    using sc_sdl_set_window_size_kept [OF s1] sc_sdl_set_window_position_kept [OF s2]
    by (rule playback_kept_trans)
  then have "video s2" using assms(2) by (simp add: playback_kept_def)
  then obtain s3 where
    s3: "(if req_fullscreen s2 then sc_screen_toggle_fullscreen lib s2 else Inr s2) = Inr s3"
    using toggle_fullscreen_returns by blast
  let ?s4 = "if req_start_fps_counter s3
             then s3\<lparr>fps_counter := sc_fps_counter_start lib (fps_counter s3)\<rparr> else s3"
  obtain s5 where s5: "sc_sdl_show_window lib ?s4 = Inr s5"
    using assms(1) by (simp add: sc_sdl_show_window_def sdl_do_answers)
  have "playback_kept s2 s5"
    using toggle_fullscreen_kept [OF s3] fps_counter_start_kept sc_sdl_show_window_kept [OF s5]
    by (meson playback_kept_trans)
  with k2 have "playback_kept screen s5" by (rule playback_kept_trans)
  then have "video s5" "0 < width (content_size s5)" "0 < height (content_size s5)"
    using assms by (simp_all add: playback_kept_def)
  then obtain s6 where s6: "sc_screen_update_content_rect lib s5 = Inr s6"
    using update_content_rect_returns [OF assms(1)] by blast
  show ?thesis
    using ws s1 s2 s3 s5 s6 assms(3)
    by (simp add: sc_screen_show_initial_window_def Let_def)
qed

lemma resize_for_content_total:
  assumes "sdl_answers lib" and "video screen" and "is_windowed lib screen"
    and "0 < width old_size" and "0 < height old_size"
  shows "\<exists>screen1. resize_for_content lib screen old_size new_size = Inr screen1"
proof -
  obtain ws where "SDL_GetWindowSize lib (sdl_calls screen) = Some ws"
    using assms(1) by (metis sdl_answers_def not_None_eq)
  moreover have "\<forall>t. SDL_call_ok lib (sdl_calls screen) (SetWindowSize t)"
    using assms(1) by (simp add: sdl_answers_def)
  ultimately show ?thesis
    using resize_for_content_returns [OF assms(2,3,4,5), of ws new_size] by blast
qed

lemma set_content_size_returns:
  assumes "sdl_answers lib" and "video screen"
    and "0 < width (content_size screen)" and "0 < height (content_size screen)"
  shows "\<exists>screen1. set_content_size lib screen n = Inr screen1"
proof (cases "is_windowed lib screen")
  case True
  then obtain s1 where "resize_for_content lib screen (content_size screen) n = Inr s1"
    using resize_for_content_total [OF assms(1,2) True assms(3,4)] by blast
  with True assms(2) show ?thesis by (simp add: set_content_size_def)
next
  case False
  with assms(2) show ?thesis by (simp add: set_content_size_def)
qed

lemma render_returns:
  assumes "sdl_answers lib" and "video screen" and "has_video_window screen"
  shows "\<exists>screen1. sc_screen_render lib screen False = Inr screen1"
  using assms
  by (simp add: sc_screen_render_def sc_sdl_render_present_def sdl_do_answers Let_def)

lemma get_oriented_size_pos:
  "0 < width sz \<Longrightarrow> 0 < height sz \<Longrightarrow>
   0 < width (get_oriented_size sz ori) \<and> 0 < height (get_oriented_size sz ori)"
  by (simp add: get_oriented_size_def)

lemma word_of_int_16_pos: "0 < k \<Longrightarrow> k \<le> 65535 \<Longrightarrow> 0 < (word_of_int k :: 16 word)"
  by (simp add: word_less_def uint_word_of_int_16)

lemma apply_frame_returns:
  assumes "sdl_answers lib" and "video screen"
    and "0 < frame_width (frame screen)" and "frame_width (frame screen) \<le> 65535"
    and "0 < frame_height (frame screen)" and "frame_height (frame screen) \<le> 65535"
    and "has_frame screen \<longrightarrow>
           0 < width (content_size screen) \<and> 0 < height (content_size screen)"
    and "\<not> has_video_window screen \<longrightarrow> (\<forall>s. is_windowed lib s)"
  shows "\<exists>ok screen1. sc_screen_apply_frame lib screen = Inr (ok, screen1)"
proof -
  define s1 where
    "s1 = screen\<lparr>fps_counter := sc_fps_counter_add_rendered_frame (fps_counter screen)\<rparr>"
  define nfs where
    "nfs = \<lparr>width = word_of_int (frame_width (frame s1)) :: 16 word,
            height = word_of_int (frame_height (frame s1)) :: 16 word\<rparr>"
  define G where
    "G = (if \<not> has_frame s1
                  \<or> width (frame_size s1) \<noteq> width nfs
                  \<or> height (frame_size s1) \<noteq> height nfs
               then
                 (let (ok, disp) =
                        sc_display_prepare_texture lib (display s1) nfs
                  in if \<not> ok then Inr (False, s1\<lparr>display := disp\<rparr>)
                     else
                       let screen2 = s1\<lparr>display := disp, frame_size := nfs\<rparr>;
                           new_content_size =
                             get_oriented_size nfs (orientation screen2)
                       in if has_frame screen2
                          then (case set_content_size lib screen2 new_content_size of
                                  Inl e \<Rightarrow> Inl e
                                | Inr screen3 \<Rightarrow>
                                    (case sc_screen_update_content_rect lib screen3 of
                                       Inl e \<Rightarrow> Inl e
                                     | Inr screen4 \<Rightarrow> Inr (True, screen4)))
                          else Inr (True, screen2\<lparr>has_frame := True,
                                                  content_size := new_content_size\<rparr>))
               else Inr (True, s1))"
  define W where
    "W = (\<lambda>screen6. if \<not> has_video_window screen6
                                   then (case sc_screen_show_initial_window lib
                                                (screen6\<lparr>has_video_window := True\<rparr>) of
                                           Inl e \<Rightarrow> Inl e
                                         | Inr screen7 \<Rightarrow>
                                             Inr (if sc_screen_is_relative_mode screen7
                                                  then screen7\<lparr>mouse_capture_active := True\<rparr>
                                                  else screen7))
                                   else Inr screen6)"
  define R where
    "R = (\<lambda>screen5. let (ok, disp) =
                        sc_display_update_texture lib (display screen5) (frame screen5)
                  in if \<not> ok then Inr (False, screen5\<lparr>display := disp\<rparr>)
                     else
                       let screen6 = screen5\<lparr>display := disp\<rparr>
                       in if \<not> has_frame screen6 then Inl AssertionFailed
                          else
                            (case W screen6 of
                               Inl e \<Rightarrow> Inl e
                             | Inr screen8 \<Rightarrow>
                                 (case sc_screen_render lib screen8 False of
                                    Inl e \<Rightarrow> Inl e
                                  | Inr screen9 \<Rightarrow> Inr (True, screen9))))"
  have unfolded: "sc_screen_apply_frame lib screen =
     (if \<not> video screen then Inl AssertionFailed
      else case G of
             Inl e \<Rightarrow> Inl e
           | Inr (proceed, screen5) \<Rightarrow>
               if \<not> proceed then Inr (False, screen5) else R screen5)"
    unfolding sc_screen_apply_frame_def G_def R_def W_def nfs_def s1_def Let_def
    by (rule refl)
  have nfs_pos: "0 < width nfs" "0 < height nfs"
    using assms(3,4,5,6) by (simp_all add: nfs_def s1_def word_of_int_16_pos)
  have G_returns: "\<exists>proceed s5. G = Inr (proceed, s5)
       \<and> (proceed \<longrightarrow> video s5 \<and> has_frame s5
             \<and> 0 < width (content_size s5) \<and> 0 < height (content_size s5)
             \<and> has_video_window s5 = has_video_window screen)"
  proof (cases "\<not> has_frame s1 \<or> width (frame_size s1) \<noteq> width nfs
                  \<or> height (frame_size s1) \<noteq> height nfs")
    case False
    then have "G = Inr (True, s1)" by (simp add: G_def)
    moreover have "video s1" "has_frame s1" "0 < width (content_size s1)"
      "0 < height (content_size s1)" "has_video_window s1 = has_video_window screen"
      using False assms(2,7) by (simp_all add: s1_def)
    ultimately show ?thesis by blast
  next
    case True
    obtain pok disp where prep: "sc_display_prepare_texture lib (display s1) nfs = (pok, disp)"
      by (cases "sc_display_prepare_texture lib (display s1) nfs")
    show ?thesis
    proof (cases pok)
      case False
      with True prep show ?thesis by (auto simp add: G_def)
    next
      case pok: True
      let ?s2 = "s1\<lparr>display := disp, frame_size := nfs\<rparr>"
      let ?n = "get_oriented_size nfs (orientation ?s2)"
      have n_pos: "0 < width ?n" "0 < height ?n"
        using get_oriented_size_pos [OF nfs_pos] by simp_all
      show ?thesis
      proof (cases "has_frame s1")
        case False
        with True prep pok n_pos assms(2) show ?thesis
          by (auto simp add: G_def Let_def s1_def)
      next
        case hf: True
        have "video ?s2" "0 < width (content_size ?s2)" "0 < height (content_size ?s2)"
          using hf assms(2,7) by (simp_all add: s1_def)
        then obtain s3 where a: "set_content_size lib ?s2 ?n = Inr s3"
          using set_content_size_returns [OF assms(1)] by blast
        note k3 = set_content_size_kept [OF a]
        then have "video s3" "0 < width (content_size s3)" "0 < height (content_size s3)"
          using n_pos assms(2) by (simp_all add: playback_kept_def s1_def)
        then obtain s4 where b: "sc_screen_update_content_rect lib s3 = Inr s4"
          using update_content_rect_returns [OF assms(1)] by blast
        note k4 = update_content_rect_kept [OF b]
        have "video s4" "has_frame s4" "0 < width (content_size s4)"
          "0 < height (content_size s4)" "has_video_window s4 = has_video_window screen"
          using k3 k4 hf n_pos assms(2) by (simp_all add: playback_kept_def s1_def)
        moreover have "G = Inr (True, s4)"
          using True prep pok hf a b by (simp add: G_def Let_def)
        ultimately show ?thesis by blast
      qed
    qed
  qed
  have W_returns: "\<exists>s8. W s6 = Inr s8 \<and> video s8 \<and> has_video_window s8"
    if "video s6" and "0 < width (content_size s6)" and "0 < height (content_size s6)"
      and "has_video_window s6 = has_video_window screen" for s6
  proof (cases "has_video_window s6")
    case True
    with that show ?thesis by (simp add: W_def)
  next
    case False
    let ?s = "s6\<lparr>has_video_window := True\<rparr>"
    have "is_windowed lib ?s" using False that(4) assms(8) by simp
    moreover have "video ?s" "0 < width (content_size ?s)" "0 < height (content_size ?s)"
      using that by simp_all
    ultimately obtain s7 where a: "sc_screen_show_initial_window lib ?s = Inr s7"
      using show_initial_window_returns [OF assms(1)] by blast
    from show_initial_window_kept [OF a] that(1)
    have "video s7" "has_video_window s7" by (simp_all add: playback_kept_def)
    with False a show ?thesis by (simp add: W_def)
  qed
  have R_returns: "\<exists>ok s9. R s5 = Inr (ok, s9)"
    if "video s5" and "has_frame s5"
      and "0 < width (content_size s5)" and "0 < height (content_size s5)"
      and "has_video_window s5 = has_video_window screen" for s5
  proof -
    obtain uok disp where
      upd: "sc_display_update_texture lib (display s5) (frame s5) = (uok, disp)"
      by (cases "sc_display_update_texture lib (display s5) (frame s5)")
    show ?thesis
    proof (cases uok)
      case False
      with upd show ?thesis by (auto simp add: R_def)
    next
      case True
      let ?s6 = "s5\<lparr>display := disp\<rparr>"
      have "video ?s6" "0 < width (content_size ?s6)" "0 < height (content_size ?s6)"
        "has_video_window ?s6 = has_video_window screen"
        using that by simp_all
      from W_returns [OF this] obtain s8 where
        a: "W ?s6 = Inr s8" and "video s8" and "has_video_window s8" by blast
      then obtain s9 where b: "sc_screen_render lib s8 False = Inr s9"
        using render_returns [OF assms(1)] by blast
      from upd True that(2) a b show ?thesis by (auto simp add: R_def Let_def)
    qed
  qed
  from G_returns obtain proceed s5 where g: "G = Inr (proceed, s5)"
    and props: "proceed \<longrightarrow> video s5 \<and> has_frame s5
             \<and> 0 < width (content_size s5) \<and> 0 < height (content_size s5)
             \<and> has_video_window s5 = has_video_window screen"
    by blast
  show ?thesis
  proof (cases proceed)
    case False
    with g assms(2) show ?thesis by (auto simp add: unfolded)
  next
    case True
    with props R_returns obtain ok s9 where "R s5 = Inr (ok, s9)" by blast
    with g True assms(2) show ?thesis by (auto simp add: unfolded)
  qed
qed

text \<open>
  C6, as the program has it. When the texture cannot be updated,
  \<^verbatim>\<open>sc_screen_apply_frame\<close> returns false before it renders: the resume frame replaces
  the live frame and the slot is cleared, but nothing is drawn or presented and the
  texture still holds the previous picture. When SDL refuses to draw the texture,
  \<^verbatim>\<open>sc_screen_render\<close> logs the error and presents all the same: the texture holds the
  resume frame, but the renderer is cleared and presented without the texture drawn.
\<close>

theorem set_paused_counterexample:
  "paused paused_screen \<and> resume_frame paused_screen = Some held_frame
   \<and> sc_screen_set_paused exhausted_platform paused_screen False
       = Inr (paused_screen
                \<lparr>frame := held_frame, resume_frame := None, paused := False,
                 fps_counter := \<lparr>started = False, nr_rendered = 2, nr_skipped = 0\<rparr>\<rparr>)
   \<and> texture (display paused_screen)
       = Some \<lparr>tex_size = \<lparr>width = 1080, height = 1920\<rparr>, tex_frame = Some example_frame\<rparr>
   \<and> sc_screen_set_paused refusing_platform paused_screen False
       = Inr (paused_screen
                \<lparr>frame := held_frame, resume_frame := None, paused := False,
                 fps_counter := \<lparr>started = False, nr_rendered = 2, nr_skipped = 0\<rparr>,
                 display := \<lparr>texture = Some \<lparr>tex_size = \<lparr>width = 1080, height = 1920\<rparr>,
                                            tex_frame = Some held_frame\<rparr>\<rparr>,
                 sdl_calls := sdl_calls paused_screen @ [RenderClear, RenderPresent]\<rparr>)"
  by (simp add: sc_screen_set_paused_def sc_screen_apply_frame_def
        sc_display_update_texture_def sc_fps_counter_add_rendered_frame_def
        sc_screen_render_def sc_sdl_render_clear_def sc_sdl_render_present_def sdl_do_def
        paused_screen_def example_screen_def held_frame_def example_frame_def
        exhausted_platform_def refusing_platform_def example_platform_def Let_def)

text \<open>
  C6, amended. For a call of \<^verbatim>\<open>sc_screen_set_paused\<close> on a paused screen that holds a
  resume frame, whether it asks for pause or for resume: the resume frame replaces the
  live frame, the slot is cleared, \<^verbatim>\<open>sc_screen_apply_frame\<close> runs once on that frame, and
  the paused flag is the one asked for. When \<^verbatim>\<open>sc_screen_apply_frame\<close> succeeds, the
  texture holds the resume frame, and the calls on the window and the renderer end
  with the draw of that texture at the content rectangle, when SDL accepts it,
  followed by one \<^verbatim>\<open>SDL_RenderPresent\<close>; no other texture is drawn and nothing else is
  presented, so that the frame is presented exactly once, and drawn exactly once when
  SDL accepts the draw and not at all when it refuses it. When
  \<^verbatim>\<open>sc_screen_apply_frame\<close> fails nothing is drawn or presented. The call returns
  whenever SDL answers, the dimensions of the resume frame are positive and fit 16
  bits, the content size in use is positive and the window is windowed before it is
  first shown.
\<close>

theorem set_paused_presents_resume_frame:
  assumes "paused screen" and "resume_frame screen = Some held"
  shows "(sc_screen_set_paused lib screen p = Inr screen' \<longrightarrow>
           frame screen' = held \<and> resume_frame screen' = None \<and> paused screen' = p
           \<and> (\<exists>ok screen1.
                 sc_screen_apply_frame lib (screen\<lparr>frame := held, resume_frame := None\<rparr>)
                   = Inr (ok, screen1)
                 \<and> screen' = screen1\<lparr>paused := p\<rparr>
                 \<and> (\<not> ok \<longrightarrow> presents screen' = presents screen
                             \<and> draws screen' = draws screen)
                 \<and> (ok \<longrightarrow> update_texture_ok lib held
                          \<and> (\<exists>tex cs.
                                texture (display screen') = Some tex
                                \<and> tex_frame tex = Some held
                                \<and> sdl_calls screen'
                                    = cs @ (if SDL_call_ok lib cs (draw_call screen' tex)
                                            then [draw_call screen' tex] else [])
                                         @ [RenderPresent]
                                \<and> presents screen' = presents screen + 1
                                \<and> draws screen'
                                    = draws screen
                                      + (if SDL_call_ok lib cs (draw_call screen' tex)
                                         then 1 else 0)))))
       \<and> (video screen \<and> sdl_answers lib
            \<and> 0 < frame_width held \<and> frame_width held \<le> 65535
            \<and> 0 < frame_height held \<and> frame_height held \<le> 65535
            \<and> (has_frame screen \<longrightarrow>
                  0 < width (content_size screen) \<and> 0 < height (content_size screen))
            \<and> (\<not> has_video_window screen \<longrightarrow> (\<forall>s. is_windowed lib s))
          \<longrightarrow> (\<exists>s. sc_screen_set_paused lib screen p = Inr s))"
proof (intro conjI impI)
  let ?s = "screen\<lparr>frame := held, resume_frame := None\<rparr>"
  assume ret: "sc_screen_set_paused lib screen p = Inr screen'"
  with assms obtain ok screen1 where
    run: "sc_screen_apply_frame lib ?s = Inr (ok, screen1)"
    and res: "screen' = screen1\<lparr>paused := p\<rparr>"
    by (auto simp add: sc_screen_set_paused_def split: if_splits sum.splits)
  have same: "presents ?s = presents screen" "draws ?s = draws screen"
    by (simp_all add: presents_def draws_def)
  have same': "presents screen' = presents screen1" "draws screen' = draws screen1"
    "sdl_calls screen' = sdl_calls screen1" "display screen' = display screen1"
    "\<And>tex. draw_call screen' tex = draw_call screen1 tex"
    by (simp_all add: res presents_def draws_def draw_call_def)
  note kept = apply_frame_playback [OF run]
  from kept res show "frame screen' = held" and "resume_frame screen' = None"
    and "paused screen' = p"
    by simp_all
  have fail: "\<not> ok \<longrightarrow> presents screen' = presents screen \<and> draws screen' = draws screen"
    using kept same same' by simp
  have good: "update_texture_ok lib held
      \<and> (\<exists>tex cs. texture (display screen') = Some tex \<and> tex_frame tex = Some held
            \<and> sdl_calls screen'
                = cs @ (if SDL_call_ok lib cs (draw_call screen' tex)
                        then [draw_call screen' tex] else []) @ [RenderPresent]
            \<and> presents screen' = presents screen + 1
            \<and> draws screen'
                = draws screen
                  + (if SDL_call_ok lib cs (draw_call screen' tex) then 1 else 0))"
    if ok
  proof -
    from kept that obtain tex cs where
      u: "update_texture_ok lib held"
      and t: "texture (display screen1) = Some tex" "tex_frame tex = Some held"
      and l: "sdl_calls screen1
                = cs @ (if SDL_call_ok lib cs (draw_call screen1 tex)
                        then [draw_call screen1 tex] else []) @ [RenderPresent]"
      and c: "length (filter is_draw cs) = draws screen"
         "length (filter (\<lambda>c. c = RenderPresent) cs) = presents screen"
      using same by auto
    have nd: "\<not> is_draw RenderPresent" by simp
    have dd: "is_draw (draw_call screen1 tex)" "draw_call screen1 tex \<noteq> RenderPresent"
      by (simp_all add: draw_call_def)
    have p: "presents screen1 = presents screen + 1"
      using c(2) dd(2) by (simp add: presents_def l)
    have d: "draws screen1
               = draws screen + (if SDL_call_ok lib cs (draw_call screen1 tex) then 1 else 0)"
      using c(1) dd(1) by (simp add: draws_def l)
    from u t l p d show ?thesis
      unfolding same'
      by (intro conjI exI [of _ tex] exI [of _ cs])
  qed
  from run res fail good
  show "\<exists>ok screen1.
          sc_screen_apply_frame lib ?s = Inr (ok, screen1)
          \<and> screen' = screen1\<lparr>paused := p\<rparr>
          \<and> (\<not> ok \<longrightarrow> presents screen' = presents screen \<and> draws screen' = draws screen)
          \<and> (ok \<longrightarrow> update_texture_ok lib held
                   \<and> (\<exists>tex cs. texture (display screen') = Some tex
                         \<and> tex_frame tex = Some held
                         \<and> sdl_calls screen'
                             = cs @ (if SDL_call_ok lib cs (draw_call screen' tex)
                                     then [draw_call screen' tex] else []) @ [RenderPresent]
                         \<and> presents screen' = presents screen + 1
                         \<and> draws screen'
                             = draws screen
                               + (if SDL_call_ok lib cs (draw_call screen' tex)
                                  then 1 else 0)))"
    by (intro exI [of _ ok] exI [of _ screen1] conjI impI) blast+
next
  let ?s = "screen\<lparr>frame := held, resume_frame := None\<rparr>"
  assume a: "video screen \<and> sdl_answers lib
            \<and> 0 < frame_width held \<and> frame_width held \<le> 65535
            \<and> 0 < frame_height held \<and> frame_height held \<le> 65535
            \<and> (has_frame screen \<longrightarrow>
                  0 < width (content_size screen) \<and> 0 < height (content_size screen))
            \<and> (\<not> has_video_window screen \<longrightarrow> (\<forall>s. is_windowed lib s))"
  then have "\<exists>ok screen1. sc_screen_apply_frame lib ?s = Inr (ok, screen1)"
    by (intro apply_frame_returns) simp_all
  then obtain ok screen1 where "sc_screen_apply_frame lib ?s = Inr (ok, screen1)"
    by blast
  with a assms show "\<exists>s. sc_screen_set_paused lib screen p = Inr s"
    by (simp add: sc_screen_set_paused_def)
qed

theorem set_paused_presents_resume_frame_witness:
  "paused paused_screen \<and> resume_frame paused_screen = Some held_frame
   \<and> sdl_answers example_platform
   \<and> sc_screen_set_paused example_platform paused_screen True
     = Inr (paused_screen
         \<lparr>frame := held_frame, resume_frame := None,
          fps_counter := \<lparr>started = False, nr_rendered = 2, nr_skipped = 0\<rparr>,
          display := \<lparr>texture = Some \<lparr>tex_size = \<lparr>width = 1080, height = 1920\<rparr>,
                                     tex_frame = Some held_frame\<rparr>\<rparr>,
          sdl_calls := sdl_calls paused_screen
             @ [RenderClear,
                RenderTexture \<lparr>tex_size = \<lparr>width = 1080, height = 1920\<rparr>,
                               tex_frame = Some held_frame\<rparr>
                  \<lparr>rect_x = 0, rect_y = 0, rect_w = 540, rect_h = 960\<rparr>,
                RenderPresent]\<rparr>)
   \<and> (\<exists>s. sc_screen_set_paused example_platform paused_screen True = Inr s
          \<and> frame s = held_frame \<and> resume_frame s = None \<and> paused s = True
          \<and> presents s = presents paused_screen + 1
          \<and> draws s = draws paused_screen + 1)"
proof -
  have run: "sc_screen_set_paused example_platform paused_screen True
     = Inr (paused_screen
         \<lparr>frame := held_frame, resume_frame := None,
          fps_counter := \<lparr>started = False, nr_rendered = 2, nr_skipped = 0\<rparr>,
          display := \<lparr>texture = Some \<lparr>tex_size = \<lparr>width = 1080, height = 1920\<rparr>,
                                     tex_frame = Some held_frame\<rparr>\<rparr>,
          sdl_calls := sdl_calls paused_screen
             @ [RenderClear,
                RenderTexture \<lparr>tex_size = \<lparr>width = 1080, height = 1920\<rparr>,
                               tex_frame = Some held_frame\<rparr>
                  \<lparr>rect_x = 0, rect_y = 0, rect_w = 540, rect_h = 960\<rparr>,
                RenderPresent]\<rparr>)"
    by (simp add: sc_screen_set_paused_def sc_screen_apply_frame_def
        sc_display_update_texture_def sc_fps_counter_add_rendered_frame_def
        sc_screen_render_def sc_sdl_render_clear_def sc_sdl_render_present_def sdl_do_def
        paused_screen_def example_screen_def held_frame_def example_frame_def
        example_platform_def Let_def)
  have pre: "paused paused_screen" "resume_frame paused_screen = Some held_frame"
    by (simp_all add: paused_screen_def)
  have answers: "sdl_answers example_platform"
    by (simp add: sdl_answers_def example_platform_def)
  then have total: "video paused_screen \<and> sdl_answers example_platform
       \<and> 0 < frame_width held_frame \<and> frame_width held_frame \<le> 65535
       \<and> 0 < frame_height held_frame \<and> frame_height held_frame \<le> 65535
       \<and> (has_frame paused_screen \<longrightarrow>
             0 < width (content_size paused_screen) \<and> 0 < height (content_size paused_screen))
       \<and> (\<not> has_video_window paused_screen \<longrightarrow> (\<forall>s. is_windowed example_platform s))"
    by (simp add: paused_screen_def example_screen_def held_frame_def)
  from set_paused_presents_resume_frame [OF pre, THEN conjunct1, THEN mp, OF run]
    set_paused_presents_resume_frame [OF pre, THEN conjunct2, THEN mp, OF total, of True]
    pre run answers
  show ?thesis
    by (simp add: presents_def draws_def paused_screen_def)
qed

end
